theory Spec2Isabelle
  imports Complex_Main
begin

section \<open>Numbers, points and vectors\<close>

text \<open>
  The programs compute with C++ \<^verbatim>\<open>double\<close>.  Throughout this development a
  \<^verbatim>\<open>double\<close> is read as a real number: arithmetic is exact, there is no rounding, no
  overflow and no signed zero.  Where the C++ would produce a value that is not a number
  (the gradient of the exact solution at the origin) the model returns \<open>None\<close>.
  \<^verbatim>\<open>unsigned int\<close> counters are natural numbers; none of them is used in arithmetic
  that could wrap.
\<close>

type_synonym Point2 = "real \<times> real"
type_synonym Tensor1 = "real \<times> real"
type_synonym Vector = "real list"

text \<open>\<^verbatim>\<open>Point<2>::norm()\<close>: the Euclidean length.\<close>

definition point_norm :: "Point2 \<Rightarrow> real" where
  "point_norm p = sqrt (fst p * fst p + snd p * snd p)"

text \<open>
  \<^verbatim>\<open>atan2(y, x)\<close> of the C library on real arguments: the angle of the point \<open>(x, y)\<close>
  in \<open>(-\<pi>, \<pi>]\<close>, and \<open>0\<close> at the origin.
\<close>

definition atan2 :: "real \<Rightarrow> real \<Rightarrow> real" where
  "atan2 y x =
     (if 0 < x then arctan (y / x)
      else if x < 0 then (if 0 \<le> y then arctan (y / x) + pi else arctan (y / x) - pi)
      else if 0 < y then pi / 2
      else if y < 0 then - (pi / 2)
      else 0)"

section \<open>The Laplace solver on the Gamma-shaped domain\<close>

subsection \<open>ExactSolution\<close>

text \<open>
  \<^verbatim>\<open>ExactSolution<2>::value\<close>: \<open>u = r\<^sup>2\<^sup>/\<^sup>3 sin (2\<theta>/3)\<close>.  \<^verbatim>\<open>pow(r, 2.0/3.0)\<close> is
  \<open>r powr (2/3)\<close>; both are \<open>0\<close> at \<open>r = 0\<close>.
\<close>

definition ExactSolution_value :: "Point2 \<Rightarrow> real" where
  "ExactSolution_value p =
     (let r = point_norm p;
          theta = atan2 (snd p) (fst p);
          theta = (if theta < 0 then theta + 2 * pi else theta)
      in r powr (2 / 3) * sin (2 * theta / 3))"

text \<open>
  \<^verbatim>\<open>ExactSolution<2>::gradient\<close>.  At the origin \<^verbatim>\<open>pow(r, -4.0/3.0)\<close> is infinite and
  the products with \<open>p[0] = p[1] = 0\<close> are not numbers: the model returns \<open>None\<close> there.
\<close>

definition ExactSolution_gradient :: "Point2 \<Rightarrow> Tensor1 option" where
  "ExactSolution_gradient p =
     (let r = point_norm p;
          theta = atan2 (snd p) (fst p);
          theta = (if theta < 0 then theta + 2 * pi else theta)
      in if r = 0 then None
         else let a = (2 / 3) * r powr (- 4 / 3)
              in Some (a * (- snd p * cos (2 * theta / 3) + fst p * sin (2 * theta / 3)),
                       a * (fst p * cos (2 * theta / 3) + snd p * sin (2 * theta / 3))))"

subsection \<open>The objects of the finite-element library\<close>

text \<open>
  The program is a client of the deal.II library.  The library's objects are modelled by
  what the program reads from them; its algorithms that no property below depends on are
  fields of the record \<open>dealii\<close>, so every theorem holds for any behaviour of theirs.
\<close>

datatype Exception =
    ExcMessage string
  | ExcIO
  | NoConvergence nat real

type_synonym Cell = "Point2 list"

record Triangulation =
  active_cells :: "Cell list"
  n_cells :: nat

definition n_active_cells :: "Triangulation \<Rightarrow> nat" where
  "n_active_cells t = length (active_cells t)"

text \<open>
  A \<^verbatim>\<open>DoFHandler\<close> for the Lagrange element \<^verbatim>\<open>FE_Q\<close>: the active cells of the
  triangulation it is attached to, each with the global indices of its degrees of
  freedom (what \<^verbatim>\<open>active_cell_iterators\<close> and \<^verbatim>\<open>get_dof_indices\<close> give), and the
  support point of every degree of freedom.
\<close>

record DoFHandler =
  dof_cells :: "(Cell \<times> nat list) list"
  support_points :: "Point2 list"

definition n_dofs :: "DoFHandler \<Rightarrow> nat" where
  "n_dofs dh = length (support_points dh)"

type_synonym SparseMatrix = "nat \<Rightarrow> nat \<Rightarrow> real"

text \<open>\<^verbatim>\<open>FEValues\<close> after \<^verbatim>\<open>reinit (cell)\<close>: \<open>shape_grad i q\<close> and \<open>JxW q\<close>.\<close>

record FEValues =
  shape_grad :: "nat \<Rightarrow> nat \<Rightarrow> Tensor1"
  JxW :: "nat \<Rightarrow> real"

text \<open>
  What \<^verbatim>\<open>integrate_difference\<close> reads at one quadrature point of a cell: the weight,
  the point, and the finite-element function and its gradient there.
\<close>

record QSample =
  q_JxW :: real
  q_point :: Point2
  fe_value :: real
  fe_gradient :: Tensor1

text \<open>The state of one conjugate-gradient solve: iterate, residual, search direction.\<close>

record CGState =
  cg_x :: Vector
  cg_g :: Vector
  cg_d :: Vector
  cg_gh :: real

datatype TableValue = UIntValue nat | DoubleValue "real option"

datatype RateMode = reduction_rate | reduction_rate_log2

datatype TableDirective =
    set_precision string nat
  | set_scientific string bool
  | set_tex_caption string string
  | set_tex_format string string
  | evaluate_convergence_rates string RateMode

record ConvergenceTable =
  table_values :: "(string \<times> TableValue) list"
  table_directives :: "TableDirective list"

definition add_value :: "string \<Rightarrow> TableValue \<Rightarrow> ConvergenceTable \<Rightarrow> ConvergenceTable" where
  "add_value key v t = t\<lparr>table_values := table_values t @ [(key, v)]\<rparr>"

definition directive :: "TableDirective \<Rightarrow> ConvergenceTable \<Rightarrow> ConvergenceTable" where
  "directive d t = t\<lparr>table_directives := table_directives t @ [d]\<rparr>"

record dealii =
  read_msh :: "string \<Rightarrow> Exception + Triangulation"
  refine_global :: "nat \<Rightarrow> Triangulation \<Rightarrow> Triangulation"
  distribute_dofs :: "Triangulation \<Rightarrow> nat \<Rightarrow> DoFHandler"
  make_sparsity_pattern :: "DoFHandler \<Rightarrow> (nat \<times> nat) list"
  fe_values_reinit :: "nat \<Rightarrow> nat \<Rightarrow> Cell \<Rightarrow> FEValues"
  interpolate_boundary_values :: "DoFHandler \<Rightarrow> nat \<Rightarrow> (Point2 \<Rightarrow> real) \<Rightarrow> (nat \<times> real) list"
  apply_boundary_values ::
    "(nat \<times> real) list \<Rightarrow> SparseMatrix \<Rightarrow> Vector \<Rightarrow> Vector \<Rightarrow> SparseMatrix \<times> Vector \<times> Vector"
  cg_start :: "SparseMatrix \<Rightarrow> real \<Rightarrow> Vector \<Rightarrow> Vector \<Rightarrow> CGState"
  cg_iteration :: "SparseMatrix \<Rightarrow> real \<Rightarrow> CGState \<Rightarrow> CGState"
  function_samples :: "DoFHandler \<Rightarrow> Vector \<Rightarrow> nat \<Rightarrow> Cell \<times> nat list \<Rightarrow> QSample list"
  write_vtk :: "DoFHandler \<Rightarrow> (string \<times> Vector) list \<Rightarrow> nat \<Rightarrow> string"
  write_text :: "ConvergenceTable \<Rightarrow> string"
  write_tex :: "ConvergenceTable \<Rightarrow> string"

text \<open>
  The world outside the program: the files it can read, the paths it can write, and the
  standard output.
\<close>

record World =
  fs :: "string \<Rightarrow> string option"
  writable :: "string \<Rightarrow> bool"
  cout :: string

definition print :: "string \<Rightarrow> World \<Rightarrow> World" where
  "print s w = w\<lparr>cout := cout w @ s\<rparr>"

definition endl :: string where
  "endl = [CHR 0x0A]"

fun string_of_nat :: "nat \<Rightarrow> string" where
  "string_of_nat n =
     (if n < 10 then [''0123456789'' ! n]
      else string_of_nat (n div 10) @ [''0123456789'' ! (n mod 10)])"

declare string_of_nat.simps [simp del]

text \<open>\<^verbatim>\<open>Utilities::int_to_string (value, digits)\<close>: decimal, padded with zeros on the left.\<close>

definition int_to_string :: "nat \<Rightarrow> nat \<Rightarrow> string" where
  "int_to_string v digits =
     replicate (digits - length (string_of_nat v)) (CHR ''0'') @ string_of_nat v"

subsection \<open>Vectors\<close>

definition l2_norm :: "Vector \<Rightarrow> real" where
  "l2_norm v = sqrt (\<Sum>x\<leftarrow>v. x * x)"

text \<open>\<^verbatim>\<open>a -= b\<close> on two vectors of the same size.\<close>

definition vector_minus :: "Vector \<Rightarrow> Vector \<Rightarrow> Vector" where
  "vector_minus a b = map2 (-) a b"

text \<open>
  \<^verbatim>\<open>VectorTools::interpolate\<close> for a Lagrange element: the function's value at the
  support point of every degree of freedom.
\<close>

definition interpolate :: "DoFHandler \<Rightarrow> (Point2 \<Rightarrow> real) \<Rightarrow> Vector" where
  "interpolate dh f = map f (support_points dh)"

definition dot :: "Tensor1 \<Rightarrow> Tensor1 \<Rightarrow> real" where
  "dot a b = fst a * fst b + snd a * snd b"

definition tensor_minus :: "Tensor1 \<Rightarrow> Tensor1 \<Rightarrow> Tensor1" where
  "tensor_minus a b = (fst a - fst b, snd a - snd b)"

subsection \<open>LaplaceProblem\<close>

record LaplaceProblem =
  nrefine :: nat
  triangulation :: Triangulation
  fe_degree :: nat
  dof_handler :: DoFHandler
  sparsity_pattern :: "(nat \<times> nat) list"
  system_matrix :: SparseMatrix
  solution :: Vector
  system_rhs :: Vector

text \<open>The constructor: \<^verbatim>\<open>nrefine (nrefine), fe (degree), dof_handler (triangulation)\<close>.\<close>

definition new_LaplaceProblem :: "nat \<Rightarrow> nat \<Rightarrow> LaplaceProblem" where
  "new_LaplaceProblem degree n =
     \<lparr>nrefine = n,
      triangulation = \<lparr>active_cells = [], n_cells = 0\<rparr>,
      fe_degree = degree,
      dof_handler = \<lparr>dof_cells = [], support_points = []\<rparr>,
      sparsity_pattern = [],
      system_matrix = (\<lambda>i j. 0),
      solution = [],
      system_rhs = []\<rparr>"

definition make_grid_and_dofs ::
  "dealii \<Rightarrow> World \<Rightarrow> LaplaceProblem \<Rightarrow> Exception + LaplaceProblem \<times> World" where
  "make_grid_and_dofs lib w p =
     (case fs w ''Gamma.msh'' of
        None \<Rightarrow> Inl (ExcMessage ''Grid file not found'')
      | Some gfile \<Rightarrow>
          (case read_msh lib gfile of
             Inl e \<Rightarrow> Inl e
           | Inr coarse \<Rightarrow>
               let tria = refine_global lib (nrefine p) coarse;
                   w1 = print (''   Number of active cells: ''
                               @ string_of_nat (n_active_cells tria) @ endl
                               @ ''   Total number of cells: ''
                               @ string_of_nat (n_cells tria) @ endl) w;
                   dh = distribute_dofs lib tria (fe_degree p);
                   w2 = print (''   Number of degrees of freedom: ''
                               @ string_of_nat (n_dofs dh) @ endl) w1;
                   dsp = make_sparsity_pattern lib dh
               in Inr (p\<lparr>triangulation := tria,
                         dof_handler := dh,
                         sparsity_pattern := dsp,
                         system_matrix := (\<lambda>i j. 0),
                         solution := replicate (n_dofs dh) 0,
                         system_rhs := replicate (n_dofs dh) 0\<rparr>, w2)))"

text \<open>\<^verbatim>\<open>QGauss<2>(n).size()\<close> and \<^verbatim>\<open>FE_Q<2>(degree).dofs_per_cell\<close>.\<close>

definition QGauss_size :: "nat \<Rightarrow> nat" where
  "QGauss_size n = n * n"

definition dofs_per_cell :: "nat \<Rightarrow> nat" where
  "dofs_per_cell degree = (degree + 1) * (degree + 1)"

definition matrix_add :: "nat \<Rightarrow> nat \<Rightarrow> real \<Rightarrow> SparseMatrix \<Rightarrow> SparseMatrix" where
  "matrix_add i j v A = A(i := (A i)(j := A i j + v))"

text \<open>The loops over \<open>q_point\<close>, \<open>i\<close> and \<open>j\<close> that fill \<^verbatim>\<open>cell_matrix\<close>.\<close>

definition cell_matrix :: "FEValues \<Rightarrow> nat \<Rightarrow> nat \<Rightarrow> SparseMatrix" where
  "cell_matrix fe_values n_q_points dpc =
     fold (\<lambda>q_point.
       fold (\<lambda>i.
         fold (\<lambda>j. matrix_add i j
                 (dot (shape_grad fe_values i q_point) (shape_grad fe_values j q_point)
                  * JxW fe_values q_point))
           [0..<dpc])
         [0..<dpc])
       [0..<n_q_points] (\<lambda>i j. 0)"

text \<open>
  The loops that add \<^verbatim>\<open>cell_matrix\<close> into \<^verbatim>\<open>system_matrix\<close>.  The library fills
  \<^verbatim>\<open>local_dof_indices\<close> with exactly \<^verbatim>\<open>dofs_per_cell\<close> indices, so every index read
  here is in range.
\<close>

definition add_local_to_global ::
  "nat list \<Rightarrow> nat \<Rightarrow> SparseMatrix \<Rightarrow> SparseMatrix \<Rightarrow> SparseMatrix" where
  "add_local_to_global local_dof_indices dpc cm =
     fold (\<lambda>i.
       fold (\<lambda>j. matrix_add (local_dof_indices ! i) (local_dof_indices ! j) (cm i j))
         [0..<dpc])
       [0..<dpc]"

definition assemble_system :: "dealii \<Rightarrow> LaplaceProblem \<Rightarrow> LaplaceProblem" where
  "assemble_system lib p =
     (let n_q_points = QGauss_size (2 * fe_degree p);
          dpc = dofs_per_cell (fe_degree p);
          A = fold (\<lambda>(cell, local_dof_indices).
                 add_local_to_global local_dof_indices dpc
                   (cell_matrix (fe_values_reinit lib (fe_degree p) (2 * fe_degree p) cell)
                      n_q_points dpc))
                (dof_cells (dof_handler p)) (\<lambda>i j. 0);
          rhs = map (\<lambda>_. 0) (system_rhs p);
          boundary_values =
            interpolate_boundary_values lib (dof_handler p) 0 ExactSolution_value
      in case apply_boundary_values lib boundary_values A (solution p) rhs of
           (A', x', b') \<Rightarrow> p\<lparr>system_matrix := A', solution := x', system_rhs := b'\<rparr>)"

subsection \<open>The bounded conjugate-gradient solve\<close>

text \<open>
  \<^verbatim>\<open>SolverControl (max_steps, tolerance)\<close> and its \<^verbatim>\<open>check (step, check_value)\<close>:
  success once the residual is at most the tolerance, failure once the step count has
  reached \<open>max_steps\<close>, and another iteration otherwise.
\<close>

record SolverControl =
  max_steps :: nat
  tolerance :: real

datatype State = iterate | success | failure

definition check :: "SolverControl \<Rightarrow> nat \<Rightarrow> real \<Rightarrow> State" where
  "check control step check_value =
     (if check_value \<le> tolerance control then success
      else if max_steps control \<le> step then failure
      else iterate)"

text \<open>
  The loop of \<^verbatim>\<open>SolverCG::solve\<close>: the residual of the start vector is checked as step
  \<open>0\<close>; while the control says \<open>iterate\<close>, one more iteration is done and checked.
\<close>

function SolverCG_loop ::
  "SolverControl \<Rightarrow> ('s \<Rightarrow> real) \<Rightarrow> ('s \<Rightarrow> 's) \<Rightarrow> nat \<Rightarrow> 's \<Rightarrow> nat \<times> 's" where
  "SolverCG_loop control res step it st =
     (if check control it (res st) = iterate
      then SolverCG_loop control res step (Suc it) (step st)
      else (it, st))"
  by pat_completeness auto
termination
  by (relation "measure (\<lambda>(control, res, step, it, st). max_steps control - it)")
     (auto simp: check_def split: if_splits)

declare SolverCG_loop.simps [simp del]

definition cg_residual :: "CGState \<Rightarrow> real" where
  "cg_residual st = l2_norm (cg_g st)"

text \<open>
  \<^verbatim>\<open>cg.solve (A, x, b, preconditioner)\<close> with the SSOR preconditioner of relaxation
  \<open>omega\<close>: the solution and the number of the last step, or \<^verbatim>\<open>NoConvergence\<close>.
\<close>

definition SolverCG_solve ::
  "dealii \<Rightarrow> SolverControl \<Rightarrow> SparseMatrix \<Rightarrow> Vector \<Rightarrow> Vector \<Rightarrow> real
   \<Rightarrow> Exception + Vector \<times> nat" where
  "SolverCG_solve lib control A x b omega =
     (case SolverCG_loop control cg_residual (cg_iteration lib A omega) 0
             (cg_start lib A omega x b) of
        (last_step, st) \<Rightarrow>
          if check control last_step (cg_residual st) = success
          then Inr (cg_x st, last_step)
          else Inl (NoConvergence last_step (cg_residual st)))"

definition solve ::
  "dealii \<Rightarrow> World \<Rightarrow> LaplaceProblem \<Rightarrow> Exception + LaplaceProblem \<times> World" where
  "solve lib w p =
     (let solver_control = \<lparr>max_steps = 1000, tolerance = 1 / 10 ^ 12\<rparr>
      in case SolverCG_solve lib solver_control (system_matrix p) (solution p)
                (system_rhs p) 1.2 of
           Inl e \<Rightarrow> Inl e
         | Inr (x, last_step) \<Rightarrow>
             Inr (p\<lparr>solution := x\<rparr>,
                  print (''   '' @ string_of_nat last_step
                         @ '' CG iterations needed to obtain convergence.'' @ endl) w))"

subsection \<open>Output, errors, and the refinement loop\<close>

text \<open>
  \<^verbatim>\<open>output_results\<close>.  The file is opened for writing and \<^verbatim>\<open>write_vtk\<close> raises
  \<^verbatim>\<open>ExcIO\<close> on a stream that could not be opened.
\<close>

definition output_results ::
  "dealii \<Rightarrow> World \<Rightarrow> LaplaceProblem \<Rightarrow> Exception + LaplaceProblem \<times> World" where
  "output_results lib w p =
     (let p1 = p\<lparr>system_rhs := interpolate (dof_handler p) ExactSolution_value\<rparr>;
          p2 = p1\<lparr>system_rhs := vector_minus (system_rhs p1) (solution p1)\<rparr>;
          data_out = [(''solution'', solution p2), (''error'', system_rhs p2)];
          fname = ''solution-'' @ int_to_string (nrefine p2) 2 @ ''.vtk''
      in if writable w fname
         then Inr (p2, w\<lparr>fs := (fs w)(fname \<mapsto>
                        write_vtk lib (dof_handler p2) data_out (fe_degree p2))\<rparr>)
         else Inl ExcIO)"

text \<open>
  \<^verbatim>\<open>VectorTools::integrate_difference\<close> with \<^verbatim>\<open>L2_norm\<close>: for every active cell the
  square root of the quadrature sum of the squared difference.
\<close>

definition integrate_difference_L2 ::
  "dealii \<Rightarrow> DoFHandler \<Rightarrow> Vector \<Rightarrow> (Point2 \<Rightarrow> real) \<Rightarrow> nat \<Rightarrow> Vector" where
  "integrate_difference_L2 lib dh fe_function exact n_q =
     map (\<lambda>cell. sqrt (\<Sum>s\<leftarrow>function_samples lib dh fe_function n_q cell.
                          (fe_value s - exact (q_point s)) * (fe_value s - exact (q_point s))
                          * q_JxW s))
       (dof_cells dh)"

text \<open>
  With \<^verbatim>\<open>H1_seminorm\<close> the gradients are compared.  Where the exact gradient is not a
  number, neither is the cell's value nor the norm of the vector.
\<close>

definition integrate_difference_H1 ::
  "dealii \<Rightarrow> DoFHandler \<Rightarrow> Vector \<Rightarrow> (Point2 \<Rightarrow> Tensor1 option) \<Rightarrow> nat \<Rightarrow> Vector option" where
  "integrate_difference_H1 lib dh fe_function exact_grad n_q =
     those (map (\<lambda>cell.
       map_option (\<lambda>ds. sqrt (sum_list ds))
         (those (map (\<lambda>s.
            map_option (\<lambda>g. dot (tensor_minus (fe_gradient s) g) (tensor_minus (fe_gradient s) g)
                              * q_JxW s)
              (exact_grad (q_point s)))
            (function_samples lib dh fe_function n_q cell))))
       (dof_cells dh))"

definition compute_error :: "dealii \<Rightarrow> LaplaceProblem \<Rightarrow> real \<times> real option" where
  "compute_error lib p =
     (let difference_per_cell =
            integrate_difference_L2 lib (dof_handler p) (solution p) ExactSolution_value
              (2 * fe_degree p + 1);
          L2_error = l2_norm difference_per_cell;
          gradient_difference_per_cell =
            integrate_difference_H1 lib (dof_handler p) (solution p) ExactSolution_gradient
              (2 * fe_degree p + 1);
          H1_error = map_option l2_norm gradient_difference_per_cell
      in (L2_error, H1_error))"

text \<open>
  \<^verbatim>\<open>run\<close> fills its four reference arguments; the model returns them with the problem
  and the world.  An exception of a step leaves \<^verbatim>\<open>run\<close> at once.
\<close>

definition run ::
  "dealii \<Rightarrow> World \<Rightarrow> LaplaceProblem
   \<Rightarrow> Exception + (nat \<times> nat \<times> real \<times> real option) \<times> LaplaceProblem \<times> World" where
  "run lib w p =
     (case make_grid_and_dofs lib w p of
        Inl e \<Rightarrow> Inl e
      | Inr (p1, w1) \<Rightarrow>
          (let p2 = assemble_system lib p1
           in (case solve lib w1 p2 of
                 Inl e \<Rightarrow> Inl e
               | Inr (p3, w3) \<Rightarrow>
                   (case output_results lib w3 p3 of
                      Inl e \<Rightarrow> Inl e
                    | Inr (p4, w4) \<Rightarrow>
                        (case compute_error lib p4 of
                           (L2_error, H1_error) \<Rightarrow>
                             (let ncell = n_active_cells (triangulation p4);
                                  ndofs = n_dofs (dof_handler p4);
                                  w5 = print (replicate 53 (CHR ''-'') @ endl) w4
                              in Inr ((ncell, ndofs, L2_error, H1_error), p4, w5)))))))"

text \<open>The body of the loop of \<^verbatim>\<open>main\<close> for one refinement level \<open>n\<close>.\<close>

definition refinement_step ::
  "dealii \<Rightarrow> nat \<Rightarrow> nat \<Rightarrow> ConvergenceTable \<times> World \<Rightarrow> Exception + ConvergenceTable \<times> World" where
  "refinement_step lib degree n tw =
     (case tw of (convergence_table, w) \<Rightarrow>
        (case run lib w (new_LaplaceProblem degree n) of
           Inl e \<Rightarrow> Inl e
         | Inr ((ncell, ndofs, L2_error, H1_error), problem, w') \<Rightarrow>
             Inr (add_value ''H1'' (DoubleValue H1_error)
                    (add_value ''L2'' (DoubleValue (Some L2_error))
                      (add_value ''dofs'' (UIntValue ndofs)
                        (add_value ''cells'' (UIntValue ncell) convergence_table))), w')))"

fun refinement_loop ::
  "dealii \<Rightarrow> nat \<Rightarrow> nat list \<Rightarrow> ConvergenceTable \<times> World \<Rightarrow> Exception + ConvergenceTable \<times> World" where
  "refinement_loop lib degree [] tw = Inr tw"
| "refinement_loop lib degree (n # ns) tw =
     (case refinement_step lib degree n tw of
        Inl e \<Rightarrow> Inl e
      | Inr tw' \<Rightarrow> refinement_loop lib degree ns tw')"

text \<open>
  \<^verbatim>\<open>main\<close> of the Laplace program: five refinement levels, then the table is formatted
  and written to the standard output and to \<^verbatim>\<open>error.tex\<close>.  The result is the exit
  code; an exception that nothing catches ends the program.
\<close>

definition main_laplace :: "dealii \<Rightarrow> World \<Rightarrow> Exception + int \<times> World" where
  "main_laplace lib w =
     (let degree = 1;
          convergence_table = \<lparr>table_values = [], table_directives = []\<rparr>
      in case refinement_loop lib degree [0..<5] (convergence_table, w) of
           Inl e \<Rightarrow> Inl e
         | Inr (t, w1) \<Rightarrow>
             let t1 = fold directive
                   [set_precision ''L2'' 3, set_scientific ''L2'' True,
                    set_precision ''H1'' 3, set_scientific ''H1'' True,
                    set_tex_caption ''cells'' (CHR 0x5C # ''# cells''),
                    set_tex_caption ''dofs'' (CHR 0x5C # ''# dofs''),
                    set_tex_caption ''L2'' ''$L^2$-error'',
                    set_tex_caption ''H1'' ''$H^1$-error'',
                    set_tex_format ''cells'' ''r'', set_tex_format ''dofs'' ''r'',
                    evaluate_convergence_rates ''L2'' reduction_rate_log2,
                    evaluate_convergence_rates ''H1'' reduction_rate_log2] t;
                 w2 = print (write_text lib t1) (print endl w1)
             in if writable w2 ''error.tex''
                then Inr (0, w2\<lparr>fs := (fs w2)(''error.tex'' \<mapsto> write_tex lib t1)\<rparr>)
                else Inl ExcIO)"

subsection \<open>A small instance\<close>

text \<open>
  One square cell with its four vertices as degrees of freedom, and a library whose
  solver converges at once: the instance at which the theorems below are tried.
\<close>

definition example_cell :: Cell where
  "example_cell = [(0, 0), (1, 0), (0, 1), (1, 1)]"

definition example_dealii :: dealii where
  "example_dealii =
     \<lparr>read_msh = (\<lambda>s. Inr \<lparr>active_cells = [example_cell], n_cells = 1\<rparr>),
      refine_global = (\<lambda>n t. t),
      distribute_dofs = (\<lambda>t degree.
         \<lparr>dof_cells = map (\<lambda>c. (c, [0, 1, 2, 3])) (active_cells t),
          support_points = example_cell\<rparr>),
      make_sparsity_pattern = (\<lambda>dh. []),
      fe_values_reinit = (\<lambda>degree n_q cell. \<lparr>shape_grad = (\<lambda>i q. (0, 0)), JxW = (\<lambda>q. 1)\<rparr>),
      interpolate_boundary_values = (\<lambda>dh b f. []),
      apply_boundary_values = (\<lambda>bv A x b. (A, x, b)),
      cg_start = (\<lambda>A omega x b. \<lparr>cg_x = x, cg_g = [], cg_d = [], cg_gh = 0\<rparr>),
      cg_iteration = (\<lambda>A omega st. st),
      function_samples = (\<lambda>dh u n_q cell.
         [\<lparr>q_JxW = 4, q_point = (1, 0), fe_value = 1, fe_gradient = (0, 5 / 3)\<rparr>]),
      write_vtk = (\<lambda>dh data n. ''vtk''),
      write_text = (\<lambda>t. ''table''),
      write_tex = (\<lambda>t. ''tex'')\<rparr>"

definition example_World :: World where
  "example_World =
     \<lparr>fs = (\<lambda>name. if name = ''Gamma.msh'' then Some ''msh'' else None),
      writable = (\<lambda>name. True),
      cout = []\<rparr>"

definition example_problem :: LaplaceProblem where
  "example_problem =
     \<lparr>nrefine = 0,
      triangulation = \<lparr>active_cells = [example_cell], n_cells = 1\<rparr>,
      fe_degree = 1,
      dof_handler = \<lparr>dof_cells = [(example_cell, [0, 1, 2, 3])], support_points = example_cell\<rparr>,
      sparsity_pattern = [],
      system_matrix = (\<lambda>i j. 0),
      solution = [0, 0, 0, 0],
      system_rhs = [5, 6, 7, 8]\<rparr>"

section \<open>The one-dimensional DG solver: \<^verbatim>\<open>main\<close>\<close>

text \<open>
  \<^verbatim>\<open>main.cc\<close> of \<^verbatim>\<open>1d_scalar_legendre\<close> includes \<^verbatim>\<open>dg.h\<close> and \<^verbatim>\<open>test_data.h\<close>, which
  are not among the sources.  What \<^verbatim>\<open>main\<close> calls from them, and from the library's
  \<^verbatim>\<open>ParameterHandler\<close>, is a field of the record \<open>dg1d\<close>: the theorems hold for any
  behaviour of these functions.
\<close>

text \<open>A \<^verbatim>\<open>ParameterHandler\<close>: the declared entries with their values.\<close>

type_synonym ParameterHandler = "(string \<times> string) list"

type_synonym TestCase = nat

text \<open>
  Modelled from the spec: the struct \<^verbatim>\<open>Parameter\<close> of \<^verbatim>\<open>dg.h\<close>.  \<^verbatim>\<open>main\<close> names its
  members \<^verbatim>\<open>final_time\<close>, \<^verbatim>\<open>xmin\<close> and \<^verbatim>\<open>xmax\<close>; polynomial degree, number of elements and
  CFL number are the other entries of the spec's configuration input.
\<close>

record Parameter =
  param_degree :: nat
  n_elements :: nat
  cfl :: real
  final_time :: real
  xmin :: real
  xmax :: real

text \<open>
  \<^verbatim>\<open>InitialCondition<1>\<close> is built from the test case and has the members \<^verbatim>\<open>xmin\<close>
  and \<^verbatim>\<open>xmax\<close> that \<^verbatim>\<open>main\<close> reads; \<^verbatim>\<open>Solution<1>\<close> is built from the test case and
  the final time.
\<close>

record InitialCondition =
  ic_test_case :: TestCase
  ic_xmin :: real
  ic_xmax :: real

record Solution =
  sol_test_case :: TestCase
  sol_final_time :: real

text \<open>\<^verbatim>\<open>ScalarProblem<1>\<close>: what it was constructed with.\<close>

record ScalarProblem =
  param :: Parameter
  initial_condition :: InitialCondition
  exact_solution :: Solution

record dg1d =
  declare_parameters :: "ParameterHandler \<Rightarrow> ParameterHandler"
  print_parameters :: "ParameterHandler \<Rightarrow> string"
  parse_input :: "ParameterHandler \<Rightarrow> string \<Rightarrow> Exception + ParameterHandler"
  parse_parameters :: "ParameterHandler \<Rightarrow> Exception + Parameter"
  get_test_case :: "string \<Rightarrow> Exception + TestCase"
  new_InitialCondition :: "TestCase \<Rightarrow> InitialCondition"
  ScalarProblem_run :: "ScalarProblem \<Rightarrow> Exception + string"

text \<open>\<^verbatim>\<open>ph.get (entry)\<close>: the value of a declared entry.\<close>

definition get :: "ParameterHandler \<Rightarrow> string \<Rightarrow> Exception + string" where
  "get ph entry =
     (case map_of ph entry of
        None \<Rightarrow> Inl (ExcMessage (''entry undeclared: '' @ entry))
      | Some v \<Rightarrow> Inr v)"

text \<open>
  What the program does, in order: text on the standard output, reading the parameter
  file, constructing the problem, running it.
\<close>

datatype Event =
    Stdout string
  | ParseInput string
  | Construct ScalarProblem
  | Run ScalarProblem

fun is_Stdout :: "Event \<Rightarrow> bool" where
  "is_Stdout (Stdout s) = True"
| "is_Stdout e = False"

text \<open>
  \<^verbatim>\<open>main (argc, argv)\<close>: \<open>argc\<close> is the length of \<open>argv\<close>.  The result is the exit code,
  or the exception that ended the program, and the trace of events.
\<close>

definition main_dg1d :: "dg1d \<Rightarrow> string list \<Rightarrow> (Exception + int) \<times> Event list" where
  "main_dg1d env argv =
     (let ph = declare_parameters env []
      in if length argv < 2
         then (Inr 0,
               [Stdout (''Specify input parameter file'' @ endl),
                Stdout (''It should contain following parameters.'' @ endl @ endl),
                Stdout (print_parameters env ph)])
         else
           (case parse_input env ph (argv ! 1) of
              Inl e \<Rightarrow> (Inl e, [ParseInput (argv ! 1)])
            | Inr ph1 \<Rightarrow>
                (let trace = [ParseInput (argv ! 1), Stdout (print_parameters env ph1)]
                 in (case parse_parameters env ph1 of
                       Inl e \<Rightarrow> (Inl e, trace)
                     | Inr param0 \<Rightarrow>
                         (case get ph1 ''test case'' of
                            Inl e \<Rightarrow> (Inl e, trace)
                          | Inr name \<Rightarrow>
                              (case get_test_case env name of
                                 Inl e \<Rightarrow> (Inl e, trace)
                               | Inr test_case \<Rightarrow>
                                   (let ic = new_InitialCondition env test_case;
                                        exact = \<lparr>sol_test_case = test_case,
                                                 sol_final_time = final_time param0\<rparr>;
                                        param1 = param0\<lparr>xmin := ic_xmin ic\<rparr>;
                                        param2 = param1\<lparr>xmax := ic_xmax ic\<rparr>;
                                        problem = \<lparr>param = param2, initial_condition = ic,
                                                   exact_solution = exact\<rparr>;
                                        trace1 = trace @ [Construct problem, Run problem]
                                    in (case ScalarProblem_run env problem of
                                          Inl e \<Rightarrow> (Inl e, trace1)
                                        | Inr out \<Rightarrow> (Inr 0, trace1 @ [Stdout out])))))))))"

subsection \<open>A small instance\<close>

text \<open>
  A configuration whose parameter record holds the bounds \<open>[0, 2]\<close>, and a test case
  whose initial condition lives on \<open>[-1, 1]\<close>.
\<close>

definition example_parsed :: Parameter where
  "example_parsed =
     \<lparr>param_degree = 2, n_elements = 20, cfl = 1 / 10, final_time = 1, xmin = 0, xmax = 2\<rparr>"

definition example_dg1d :: dg1d where
  "example_dg1d =
     \<lparr>declare_parameters = (\<lambda>ph. ph @ [(''degree'', ''2''), (''ncells'', ''20''),
                                        (''xmin'', ''0''), (''xmax'', ''2''),
                                        (''test case'', ''sine'')]),
      print_parameters = (\<lambda>ph. concat (map (\<lambda>(k, v). ''set '' @ k @ '' = '' @ v @ endl) ph)),
      parse_input = (\<lambda>ph file. if file = ''input.prm'' then Inr ph else Inl ExcIO),
      parse_parameters = (\<lambda>ph.
         if map_of ph ''xmin'' = Some ''0'' \<and> map_of ph ''xmax'' = Some ''2''
         then Inr example_parsed else Inl (ExcMessage ''bad parameter'')),
      get_test_case = (\<lambda>name. if name = ''sine'' then Inr 0
                               else Inl (ExcMessage ''Unknown test case'')),
      new_InitialCondition = (\<lambda>t. \<lparr>ic_test_case = t, ic_xmin = - 1, ic_xmax = 1\<rparr>),
      ScalarProblem_run = (\<lambda>problem. Inr [])\<rparr>"

definition example_constructed :: ScalarProblem where
  "example_constructed =
     \<lparr>param = \<lparr>param_degree = 2, n_elements = 20, cfl = 1 / 10, final_time = 1,
                xmin = - 1, xmax = 1\<rparr>,
      initial_condition = \<lparr>ic_test_case = 0, ic_xmin = - 1, ic_xmax = 1\<rparr>,
      exact_solution = \<lparr>sol_test_case = 0, sol_final_time = 1\<rparr>\<rparr>"

section \<open>The DG core, modelled from the specification\<close>

text \<open>
  The spatial discretisation, the limiter and the Runge-Kutta stage live in \<^verbatim>\<open>dg.h\<close>,
  which is not among the sources.  This section models them from the specification:
  a modal basis whose zeroth function is the constant one, a mesh of equal-width
  elements with periodic closure, a flux-form residual, a minmod limiter and stages that
  are convex combinations.
\<close>

text \<open>
  Modelled from the spec: the coefficients of one conserved variable in one element (one
  per basis function), an element (one coefficient sequence per conserved variable),
  and the state vector (the ordered sequence of elements), absent with \<^verbatim>\<open>dg.h\<close>.
\<close>

type_synonym Coefficients = "real list"
type_synonym Element = "Coefficients list"
type_synonym StateVector = "Element list"

text \<open>
  Modelled from the spec: the basis and quadrature data of section 4.1, absent with
  \<^verbatim>\<open>dg.h\<close>: the basis values at the two reference boundary points, the quadrature
  weights, the basis values and derivatives at the quadrature points, and the diagonal
  of the mass matrix of the orthogonal modal basis.
\<close>

record Basis =
  phi_left :: "real list"
  phi_right :: "real list"
  weights :: "real list"
  phi_q :: "real list list"
  dphi_q :: "real list list"
  mass :: "real list"

text \<open>
  Modelled from the spec: what is fixed at setup (sections 4.2 to 4.4), absent with
  \<^verbatim>\<open>dg.h\<close>: the basis, the width of the equal-width elements, the physical flux, the
  numerical flux of the left and right boundary-extrapolated states, and the constant
  of the TVB bound of the limiter.
\<close>

record Scheme =
  basis :: Basis
  dx :: real
  physical_flux :: "real list \<Rightarrow> real list"
  numerical_flux :: "real list \<Rightarrow> real list \<Rightarrow> real list"
  tvb_M :: real

text \<open>
  Modelled from the spec: the local polynomial of every conserved variable of an element
  at a point with the given basis values, absent with \<^verbatim>\<open>dg.h\<close>.
\<close>

definition evaluate :: "real list \<Rightarrow> Element \<Rightarrow> real list" where
  "evaluate values e = map (\<lambda>c. sum_list (map2 (*) c values)) e"

text \<open>
  Modelled from the spec: the quadrature of the physical flux against the derivative of
  basis function \<open>j\<close> over the element, for variable \<open>v\<close> (section 4.5 (a)), absent with
  \<^verbatim>\<open>dg.h\<close>.
\<close>

definition volume_integral :: "Scheme \<Rightarrow> Element \<Rightarrow> nat \<Rightarrow> nat \<Rightarrow> real" where
  "volume_integral S e v j =
     (\<Sum>q\<leftarrow>[0..<length (weights (basis S))].
        weights (basis S) ! q
        * (physical_flux S (evaluate (phi_q (basis S) ! q) e) ! v)
        * (dphi_q (basis S) ! q ! j))"

text \<open>
  Modelled from the spec: the residual of an element (section 4.5 (a)), absent with
  \<^verbatim>\<open>dg.h\<close>: the volume integral plus the numerical-flux jump at its two boundaries,
  scaled by the inverse of the diagonal mass matrix.
\<close>

definition residual :: "Scheme \<Rightarrow> Element \<Rightarrow> real list \<Rightarrow> real list \<Rightarrow> Element" where
  "residual S e flux_left flux_right =
     map (\<lambda>v. map (\<lambda>j.
            (volume_integral S e v j
             - (flux_right ! v * phi_right (basis S) ! j - flux_left ! v * phi_left (basis S) ! j))
            / (dx S / 2 * mass (basis S) ! j))
          [0..<length (e ! v)])
       [0..<length e]"

text \<open>
  Modelled from the spec: positional adjacency with periodic closure (sections 3 and
  4.2), absent with \<^verbatim>\<open>dg.h\<close>: the neighbour index wraps modulo the number of elements.
\<close>

definition left_neighbour :: "nat \<Rightarrow> nat \<Rightarrow> nat" where
  "left_neighbour N i = (i + N - 1) mod N"

definition right_neighbour :: "nat \<Rightarrow> nat \<Rightarrow> nat" where
  "right_neighbour N i = (i + 1) mod N"

text \<open>
  Modelled from the spec: the numerical flux record of section 3, absent with \<^verbatim>\<open>dg.h\<close>:
  one value per interface, computed from the state extrapolated to the right boundary of
  the element on its left and to the left boundary of the element on its right.
  Interface \<open>i\<close> is the left boundary of element \<open>i\<close>.
\<close>

definition interface_flux :: "Scheme \<Rightarrow> StateVector \<Rightarrow> nat \<Rightarrow> real list" where
  "interface_flux S U i =
     numerical_flux S (evaluate (phi_right (basis S)) (U ! left_neighbour (length U) i))
                      (evaluate (phi_left (basis S)) (U ! i))"

text \<open>
  Modelled from the spec: the residual of element \<open>i\<close> of a state, absent with \<^verbatim>\<open>dg.h\<close>:
  its two boundaries are interface \<open>i\<close> and the interface of its right neighbour.
\<close>

definition element_residual :: "Scheme \<Rightarrow> StateVector \<Rightarrow> nat \<Rightarrow> Element" where
  "element_residual S U i =
     residual S (U ! i) (interface_flux S U i)
       (interface_flux S U (right_neighbour (length U) i))"

text \<open>
  Modelled from the spec: the stage state of an element (section 4.5 (b)), absent with
  \<^verbatim>\<open>dg.h\<close>: the combination, with weights \<open>a\<close> and \<open>b\<close>, of the state at the start of the
  step and the residual-scaled update of the previous stage state.
\<close>

definition combine :: "real \<Rightarrow> real \<Rightarrow> real \<Rightarrow> Element \<Rightarrow> Element \<Rightarrow> Element \<Rightarrow> Element" where
  "combine a b dt e0 e r =
     map (\<lambda>v. map (\<lambda>j. a * e0 ! v ! j + b * (e ! v ! j + dt * r ! v ! j))
                 [0..<length (e ! v)])
       [0..<length e]"

text \<open>
  Modelled from the spec: the update of all elements in one stage, absent with \<^verbatim>\<open>dg.h\<close>.
  Every residual is computed from the state before the stage (section 5).
\<close>

definition stage_update ::
  "Scheme \<Rightarrow> real \<Rightarrow> real \<Rightarrow> real \<Rightarrow> StateVector \<Rightarrow> StateVector \<Rightarrow> StateVector" where
  "stage_update S a b dt U0 U =
     map (\<lambda>i. combine a b dt (U0 ! i) (U ! i) (element_residual S U i)) [0..<length U]"

text \<open>Modelled from the spec: the minmod function of the limiter's criterion (section 4.4).\<close>

definition minmod :: "real \<Rightarrow> real \<Rightarrow> real \<Rightarrow> real" where
  "minmod a b c =
     (if 0 < a \<and> 0 < b \<and> 0 < c then min a (min b c)
      else if a < 0 \<and> b < 0 \<and> c < 0 then max a (max b c)
      else 0)"

text \<open>
  Modelled from the spec: the limiter on the coefficients of one variable of one element
  (section 4.4), absent with \<^verbatim>\<open>dg.h\<close>.  \<open>ul\<close> and \<open>ur\<close> are the cell averages of the two
  neighbours.  When the slope exceeds the TVB bound and differs from the minmod of itself
  and the two differences of cell averages, the coefficients are replaced by the limited
  linear reconstruction; otherwise they are left as they are.
\<close>

fun limit_coefficients :: "real \<Rightarrow> real \<Rightarrow> real \<Rightarrow> Coefficients \<Rightarrow> real \<Rightarrow> Coefficients" where
  "limit_coefficients M h ul [] ur = []"
| "limit_coefficients M h ul [u0] ur = [u0]"
| "limit_coefficients M h ul (u0 # u1 # higher) ur =
     (let s = (if \<bar>u1\<bar> \<le> M * h * h then u1 else minmod u1 (u0 - ul) (ur - u0))
      in if s = u1 then u0 # u1 # higher
         else u0 # s # map (\<lambda>_. 0) higher)"

text \<open>
  Modelled from the spec: the limiter on a state (section 4.4), absent with \<^verbatim>\<open>dg.h\<close>:
  every variable of every element is limited against the cell averages of the two
  neighbours, all read from the state before limiting.
\<close>

definition limiter :: "Scheme \<Rightarrow> StateVector \<Rightarrow> StateVector" where
  "limiter S U =
     (let N = length U
      in map (\<lambda>i. map (\<lambda>v. limit_coefficients (tvb_M S) (dx S)
                             (U ! left_neighbour N i ! v ! 0)
                             (U ! i ! v)
                             (U ! right_neighbour N i ! v ! 0))
                     [0..<length (U ! i)])
           [0..<N])"

text \<open>
  Modelled from the spec: one Runge-Kutta stage (section 4.5), absent with \<^verbatim>\<open>dg.h\<close>: the
  update, then the limiter.
\<close>

definition rk_stage ::
  "Scheme \<Rightarrow> real \<Rightarrow> real \<Rightarrow> real \<Rightarrow> StateVector \<Rightarrow> StateVector \<Rightarrow> StateVector" where
  "rk_stage S a b dt U0 U = limiter S (stage_update S a b dt U0 U)"

text \<open>
  Modelled from the spec: the stages of one time step (section 4.5), absent with
  \<^verbatim>\<open>dg.h\<close>: the states after each stage, for the weights \<open>(a, b)\<close> of the stages.
\<close>

fun rk_stages ::
  "Scheme \<Rightarrow> real \<Rightarrow> (real \<times> real) list \<Rightarrow> StateVector \<Rightarrow> StateVector \<Rightarrow> StateVector list" where
  "rk_stages S dt [] U0 U = []"
| "rk_stages S dt ((a, b) # cs) U0 U =
     (let U' = rk_stage S a b dt U0 U in U' # rk_stages S dt cs U0 U')"

text \<open>
  Modelled from the spec: the weights of the three-stage, third-order
  strongly-stability-preserving scheme that section 4.5 names.
\<close>

definition ssp_rk3 :: "(real \<times> real) list" where
  "ssp_rk3 = [(0, 1), (3 / 4, 1 / 4), (1 / 3, 2 / 3)]"

text \<open>
  Modelled from the spec: the sum over the mesh of the cell averages (zeroth
  coefficients) of conserved variable \<open>v\<close> (section 8).
\<close>

definition total_average :: "nat \<Rightarrow> StateVector \<Rightarrow> real" where
  "total_average v U = (\<Sum>e\<leftarrow>U. e ! v ! 0)"

text \<open>
  Modelled from the spec: the invariant of section 3: every element holds the same
  number of variables, and every variable the same, positive number of coefficients.
\<close>

definition well_formed :: "nat \<Rightarrow> nat \<Rightarrow> StateVector \<Rightarrow> bool" where
  "well_formed nvar nbasis U \<longleftrightarrow>
     0 < nbasis \<and> (\<forall>e\<in>set U. length e = nvar \<and> (\<forall>c\<in>set e. length c = nbasis))"

text \<open>
  Modelled from the spec: the zeroth coefficient is the cell average: the zeroth basis
  function is the constant one, so it is \<open>1\<close> at both boundary points and its derivative
  vanishes at every quadrature point.
\<close>

definition constant_mode :: "Basis \<Rightarrow> bool" where
  "constant_mode B \<longleftrightarrow>
     phi_left B ! 0 = 1 \<and> phi_right B ! 0 = 1
     \<and> (\<forall>q<length (weights B). dphi_q B ! q ! 0 = 0)"

subsection \<open>A small instance\<close>

text \<open>
  Linear advection with the upwind flux, the Legendre basis of degree one with the
  two-point Gauss-Lobatto rule, three elements of width one half; and a state of degree
  two with a jump.
\<close>

definition example_basis :: Basis where
  "example_basis =
     \<lparr>phi_left = [1, - 1], phi_right = [1, 1], weights = [1, 1],
      phi_q = [[1, - 1], [1, 1]], dphi_q = [[0, 1], [0, 1]], mass = [2, 2 / 3]\<rparr>"

definition example_scheme :: Scheme where
  "example_scheme =
     \<lparr>basis = example_basis, dx = 1 / 2,
      physical_flux = (\<lambda>u. u), numerical_flux = (\<lambda>ul ur. ul), tvb_M = 0\<rparr>"

definition example_state :: StateVector where
  "example_state = [[[1, 0]], [[3, 1]], [[2, - 1]]]"

definition example_shock :: StateVector where
  "example_shock = [[[0, 0, 0]], [[1, 2, 5]], [[1, 0, 0]]]"

section \<open>Properties\<close>

subsection \<open>The polar angle\<close>

lemma atan2_bounds: "- pi < atan2 y x \<and> atan2 y x \<le> pi"
proof -
  have b: "- (pi / 2) < arctan (y / x)" "arctan (y / x) < pi / 2"
    by (rule arctan_lbound, rule arctan_ubound)
  have p: "0 < pi" by (rule pi_gt_zero)
  consider (pos) "0 < x" | (negp) "x < 0" "0 \<le> y" | (negn) "x < 0" "y < 0" | (z) "x = 0"
    by linarith
  then show ?thesis
  proof cases
    case pos
    then show ?thesis using b p by (simp add: atan2_def)
  next
    case negp
    then have "y / x \<le> 0" by (simp add: divide_nonneg_neg)
    then have "arctan (y / x) \<le> 0" using arctan_le_zero_iff by blast
    then show ?thesis using negp b p by (simp add: atan2_def)
  next
    case negn
    then have "0 < y / x" by (simp add: divide_neg_neg)
    then have "0 < arctan (y / x)" using zero_less_arctan_iff by blast
    then show ?thesis using negn b p by (simp add: atan2_def)
  next
    case z
    then show ?thesis using p by (simp add: atan2_def; linarith)
  qed
qed

text \<open>
  The angle of \<open>atan2\<close> is the polar angle of the point: with the Euclidean length it
  gives the point back.
\<close>

lemma sqrt_sum_squares_factor:
  fixes x y :: real
  assumes "x \<noteq> 0"
  shows "sqrt (x * x + y * y) = \<bar>x\<bar> * sqrt (1 + (y / x)\<^sup>2)"
proof -
  have "x * x + y * y = x\<^sup>2 * (1 + (y / x)\<^sup>2)"
    using assms by (simp add: power2_eq_square field_simps)
  then have "sqrt (x * x + y * y) = sqrt (x\<^sup>2) * sqrt (1 + (y / x)\<^sup>2)"
    by (simp add: real_sqrt_mult)
  then show ?thesis by simp
qed

lemma atan2_polar:
  "point_norm (x, y) * cos (atan2 y x) = x \<and> point_norm (x, y) * sin (atan2 y x) = y"
proof -
  let ?t = "y / x"
  have root: "0 < sqrt (1 + ?t\<^sup>2)"
    by (simp add: add_pos_nonneg)
  consider (pos) "0 < x" | (neg) "x < 0" | (zero) "x = 0" by linarith
  then show ?thesis
  proof cases
    case pos
    then have r: "sqrt (x * x + y * y) = x * sqrt (1 + ?t\<^sup>2)"
      using sqrt_sum_squares_factor[of x y] by simp
    have a: "atan2 y x = arctan ?t" using pos by (simp add: atan2_def)
    show ?thesis
      unfolding point_norm_def fst_conv snd_conv a r using pos root
      by (simp add: cos_arctan sin_arctan)
  next
    case neg
    then have r: "sqrt (x * x + y * y) = - x * sqrt (1 + ?t\<^sup>2)"
      using sqrt_sum_squares_factor[of x y] by simp
    have c: "cos (atan2 y x) = - cos (arctan ?t)" and s: "sin (atan2 y x) = - sin (arctan ?t)"
      using neg by (simp_all add: atan2_def)
    show ?thesis
      unfolding point_norm_def fst_conv snd_conv c s r using neg root
      by (simp add: cos_arctan sin_arctan)
  next
    case zero
    then show ?thesis by (simp add: atan2_def point_norm_def)
  qed
qed

lemma normalized_angle_range:
  fixes t :: real
  assumes "- pi < t" "t \<le> pi"
  shows "0 \<le> (if t < 0 then t + 2 * pi else t) \<and> (if t < 0 then t + 2 * pi else t) < 2 * pi"
  using assms pi_gt_zero by auto

text \<open>
  C10.  For every point, \<^verbatim>\<open>value\<close> and \<^verbatim>\<open>gradient\<close> take \<open>atan2 (y, x)\<close> and add
  \<open>2\<pi>\<close> when it is negative; the angle they use lies in \<open>[0, 2\<pi>)\<close>, and \<^verbatim>\<open>value\<close> is
  \<open>r\<^sup>2\<^sup>/\<^sup>3 sin (2\<theta>/3)\<close> at that angle.
\<close>

theorem ExactSolution_uses_normalized_angle:
  "(let t = atan2 (snd p) (fst p);
        theta = (if t < 0 then t + 2 * pi else t);
        r = point_norm p
    in 0 \<le> theta \<and> theta < 2 * pi \<and>
       ExactSolution_value p = r powr (2 / 3) * sin (2 * theta / 3) \<and>
       ExactSolution_gradient p =
         (if r = 0 then None
          else Some ((2 / 3) * r powr (- 4 / 3) *
                       (- snd p * cos (2 * theta / 3) + fst p * sin (2 * theta / 3)),
                     (2 / 3) * r powr (- 4 / 3) *
                       (fst p * cos (2 * theta / 3) + snd p * sin (2 * theta / 3)))))"
proof -
  have "- pi < atan2 (snd p) (fst p)" "atan2 (snd p) (fst p) \<le> pi"
    using atan2_bounds by blast+
  then have rng: "0 \<le> (if atan2 (snd p) (fst p) < 0 then atan2 (snd p) (fst p) + 2 * pi
                        else atan2 (snd p) (fst p))
      \<and> (if atan2 (snd p) (fst p) < 0 then atan2 (snd p) (fst p) + 2 * pi
          else atan2 (snd p) (fst p)) < 2 * pi"
    by (rule normalized_angle_range)
  show ?thesis
    unfolding Let_def ExactSolution_value_def ExactSolution_gradient_def
    using rng by simp
qed

subsection \<open>Values of the exact solution\<close>

lemma ExactSolution_value_origin: "ExactSolution_value (0, 0) = 0"
  by (simp add: ExactSolution_value_def point_norm_def atan2_def)
lemma ExactSolution_value_1_0: "ExactSolution_value (1, 0) = 0"
  by (simp add: ExactSolution_value_def point_norm_def atan2_def)
lemma ExactSolution_value_0_1: "ExactSolution_value (0, 1) = sqrt 3 / 2"
  by (simp add: ExactSolution_value_def point_norm_def atan2_def sin_60)
lemma ExactSolution_gradient_1_0: "ExactSolution_gradient (1, 0) = Some (0, 2 / 3)"
  by (simp add: ExactSolution_gradient_def point_norm_def atan2_def)

subsection \<open>The conjugate-gradient solve is bounded\<close>

lemma SolverCG_loop_steps:
  "\<exists>k. SolverCG_loop c res step it st = (it + k, (step ^^ k) st)
       \<and> it + k \<le> max (max_steps c) it
       \<and> check c (it + k) (res ((step ^^ k) st)) \<noteq> iterate"
proof (induction c res step it st rule: SolverCG_loop.induct)
  case (1 control res step it st)
  show ?case
  proof (cases "check control it (res st) = iterate")
    case True
    then have lt: "it < max_steps control"
      by (auto simp: check_def split: if_splits)
    from 1[OF True] obtain k where
      k: "SolverCG_loop control res step (Suc it) (step st) = (Suc it + k, (step ^^ k) (step st))"
         "Suc it + k \<le> max (max_steps control) (Suc it)"
         "check control (Suc it + k) (res ((step ^^ k) (step st))) \<noteq> iterate"
      by blast
    have "SolverCG_loop control res step it st = (it + Suc k, (step ^^ Suc k) st)"
      using True k(1) by (simp add: funpow_swap1 SolverCG_loop.simps[of control res step it st])
    moreover have "it + Suc k \<le> max (max_steps control) it"
      using k(2) lt by simp
    moreover have "check control (it + Suc k) (res ((step ^^ Suc k) st)) \<noteq> iterate"
      using k(3) by (simp add: funpow_swap1)
    ultimately show ?thesis by blast
  next
    case False
    then have "SolverCG_loop control res step it st = (it + 0, (step ^^ 0) st)"
      by (simp add: SolverCG_loop.simps[of control res step it st])
    then show ?thesis using False by fastforce
  qed
qed

lemma SolverCG_solve_outcome:
  "\<exists>k. k \<le> max_steps c
     \<and> ((cg_residual (((cg_iteration lib A om) ^^ k) (cg_start lib A om x b)) \<le> tolerance c
          \<and> SolverCG_solve lib c A x b om =
              Inr (cg_x (((cg_iteration lib A om) ^^ k) (cg_start lib A om x b)), k))
        \<or> (k = max_steps c
          \<and> tolerance c < cg_residual (((cg_iteration lib A om) ^^ k) (cg_start lib A om x b))
          \<and> SolverCG_solve lib c A x b om =
              Inl (NoConvergence k
                    (cg_residual (((cg_iteration lib A om) ^^ k) (cg_start lib A om x b))))))"
proof -
  let ?step = "cg_iteration lib A om"
  let ?start = "cg_start lib A om x b"
  obtain k where k: "SolverCG_loop c cg_residual ?step 0 ?start = (0 + k, (?step ^^ k) ?start)"
      "0 + k \<le> max (max_steps c) 0"
      "check c (0 + k) (cg_residual ((?step ^^ k) ?start)) \<noteq> iterate"
    using SolverCG_loop_steps[of c cg_residual ?step 0 ?start] by blast
  let ?st = "(?step ^^ k) ?start"
  have bound: "k \<le> max_steps c" using k(2) by simp
  have loop: "SolverCG_loop c cg_residual ?step 0 ?start = (k, ?st)"
    using k(1) by (simp only: add_0)
  have solve_eq: "SolverCG_solve lib c A x b om =
      (if check c k (cg_residual ?st) = success then Inr (cg_x ?st, k)
       else Inl (NoConvergence k (cg_residual ?st)))"
    unfolding SolverCG_solve_def loop by simp
  show ?thesis
  proof (cases "cg_residual ?st \<le> tolerance c")
    case True
    then have "check c k (cg_residual ?st) = success"
      by (simp add: check_def)
    with solve_eq True bound show ?thesis by auto
  next
    case False
    have "check c k (cg_residual ?st) \<noteq> iterate" using k(3) by simp
    then have "max_steps c \<le> k" using False by (simp add: check_def split: if_splits)
    then have keq: "k = max_steps c" using bound by simp
    have "check c k (cg_residual ?st) = failure"
      using False keq by (simp add: check_def)
    with solve_eq False keq show ?thesis by auto
  qed
qed

text \<open>
  C7.  The only iterative solve of the program is the conjugate-gradient solve of
  \<^verbatim>\<open>solve\<close>, under \<^verbatim>\<open>SolverControl (1000, 1e-12)\<close>.  It always returns: after some
  \<open>k \<le> 1000\<close> iterations either the residual is at most \<open>10\<^sup>-\<^sup>1\<^sup>2\<close> and \<^verbatim>\<open>solve\<close>
  stores the iterate and prints \<open>k\<close>, or \<open>k = 1000\<close>, the residual is still above the
  tolerance and \<^verbatim>\<open>NoConvergence\<close> is raised.
\<close>

theorem solve_bounded_by_1000_iterations:
  "\<exists>k st. k \<le> 1000
     \<and> st = ((cg_iteration lib (system_matrix p) 1.2) ^^ k)
               (cg_start lib (system_matrix p) 1.2 (solution p) (system_rhs p))
     \<and> ((cg_residual st \<le> 1 / 10 ^ 12
          \<and> solve lib w p =
              Inr (p\<lparr>solution := cg_x st\<rparr>,
                   print (''   '' @ string_of_nat k
                          @ '' CG iterations needed to obtain convergence.'' @ endl) w))
        \<or> (k = 1000 \<and> 1 / 10 ^ 12 < cg_residual st
          \<and> solve lib w p = Inl (NoConvergence 1000 (cg_residual st))))"
proof -
  let ?c = "\<lparr>max_steps = 1000, tolerance = 1 / 10 ^ 12\<rparr>"
  let ?st = "\<lambda>k. ((cg_iteration lib (system_matrix p) 1.2) ^^ k)
               (cg_start lib (system_matrix p) 1.2 (solution p) (system_rhs p))"
  obtain k where k: "k \<le> max_steps ?c"
    "(cg_residual (?st k) \<le> tolerance ?c
        \<and> SolverCG_solve lib ?c (system_matrix p) (solution p) (system_rhs p) 1.2 =
              Inr (cg_x (?st k), k))
     \<or> (k = max_steps ?c \<and> tolerance ?c < cg_residual (?st k)
        \<and> SolverCG_solve lib ?c (system_matrix p) (solution p) (system_rhs p) 1.2 =
              Inl (NoConvergence k (cg_residual (?st k))))"
    using SolverCG_solve_outcome[of ?c lib "system_matrix p" "1.2" "solution p" "system_rhs p"]
    by blast
  have bound: "k \<le> 1000" using k(1) by simp
  from k(2) show ?thesis
  proof (elim disjE conjE)
    assume r: "cg_residual (?st k) \<le> tolerance ?c"
      and e: "SolverCG_solve lib ?c (system_matrix p) (solution p) (system_rhs p) 1.2 =
              Inr (cg_x (?st k), k)"
    have "solve lib w p =
              Inr (p\<lparr>solution := cg_x (?st k)\<rparr>,
                   print (''   '' @ string_of_nat k
                          @ '' CG iterations needed to obtain convergence.'' @ endl) w)"
      unfolding solve_def Let_def e by simp
    moreover have "cg_residual (?st k) \<le> 1 / 10 ^ 12"
      using r by (simp only: SolverControl.select_convs)
    ultimately show ?thesis using bound by blast
  next
    assume m: "k = max_steps ?c"
      and r: "tolerance ?c < cg_residual (?st k)"
      and e: "SolverCG_solve lib ?c (system_matrix p) (solution p) (system_rhs p) 1.2 =
              Inl (NoConvergence k (cg_residual (?st k)))"
    have k1000: "k = 1000" using m by simp
    have "solve lib w p = Inl (NoConvergence k (cg_residual (?st k)))"
      unfolding solve_def Let_def e by simp
    moreover have "1 / 10 ^ 12 < cg_residual (?st k)"
      using r by (simp only: SolverControl.select_convs)
    ultimately show ?thesis unfolding k1000 by blast
  qed
qed

subsection \<open>The error norms\<close>

lemma l2_norm_sqrt:
  assumes "\<forall>c\<in>set cs. 0 \<le> a c"
  shows "l2_norm (map (\<lambda>c. sqrt (a c)) cs) = sqrt (\<Sum>c\<leftarrow>cs. a c)"
proof -
  have "(\<Sum>x\<leftarrow>map (\<lambda>c. sqrt (a c)) cs. x * x) = (\<Sum>c\<leftarrow>cs. a c)"
    using assms by (induction cs) auto
  then show ?thesis by (simp add: l2_norm_def)
qed

text \<open>
  C3.  \<^verbatim>\<open>compute_error\<close> returns a pair of scalars and nothing else; it does not touch
  the standard output or any file.  With quadrature weights that are not negative, the
  first of them is the square root of the sum, over all active cells, of the quadrature
  sum of the squared difference of the finite-element solution and the exact solution.
\<close>

theorem compute_error_L2:
  assumes "\<forall>cell\<in>set (dof_cells (dof_handler p)).
             \<forall>s\<in>set (function_samples lib (dof_handler p) (solution p) (2 * fe_degree p + 1) cell).
               0 \<le> q_JxW s"
  shows "\<exists>H1_error. compute_error lib p =
           (sqrt (\<Sum>cell\<leftarrow>dof_cells (dof_handler p).
                    \<Sum>s\<leftarrow>function_samples lib (dof_handler p) (solution p) (2 * fe_degree p + 1) cell.
                      (fe_value s - ExactSolution_value (q_point s))
                      * (fe_value s - ExactSolution_value (q_point s)) * q_JxW s),
            H1_error)"
proof -
  let ?samples = "function_samples lib (dof_handler p) (solution p) (2 * fe_degree p + 1)"
  let ?a = "\<lambda>cell. \<Sum>s\<leftarrow>?samples cell.
              (fe_value s - ExactSolution_value (q_point s))
              * (fe_value s - ExactSolution_value (q_point s)) * q_JxW s"
  have nonneg: "\<forall>cell\<in>set (dof_cells (dof_handler p)). 0 \<le> ?a cell"
  proof
    fix cell assume c: "cell \<in> set (dof_cells (dof_handler p))"
    show "0 \<le> ?a cell"
    proof (rule sum_list_nonneg)
      fix x assume "x \<in> set (map (\<lambda>s. (fe_value s - ExactSolution_value (q_point s))
              * (fe_value s - ExactSolution_value (q_point s)) * q_JxW s) (?samples cell))"
      then obtain s where s: "s \<in> set (?samples cell)"
        "x = (fe_value s - ExactSolution_value (q_point s))
              * (fe_value s - ExactSolution_value (q_point s)) * q_JxW s"
        by auto
      have "0 \<le> q_JxW s" using assms c s(1) by blast
      then show "0 \<le> x" unfolding s(2) by (intro mult_nonneg_nonneg zero_le_square)
    qed
  qed
  have "l2_norm (integrate_difference_L2 lib (dof_handler p) (solution p) ExactSolution_value
           (2 * fe_degree p + 1)) = sqrt (\<Sum>cell\<leftarrow>dof_cells (dof_handler p). ?a cell)"
    unfolding integrate_difference_L2_def using nonneg by (rule l2_norm_sqrt)
  then show ?thesis by (simp add: compute_error_def Let_def)
qed

theorem compute_error_L2_witness:
  "fst (compute_error example_dealii example_problem) = 2"
  using compute_error_L2[of example_problem example_dealii]
  by (auto simp add: example_dealii_def example_problem_def ExactSolution_value_1_0)

subsection \<open>Output and the run\<close>

lemma output_results_Inr:
  assumes "output_results lib w p = Inr (p', w')"
  shows "p' = p\<lparr>system_rhs :=
                  vector_minus (interpolate (dof_handler p) ExactSolution_value) (solution p)\<rparr>"
    and "writable w (''solution-'' @ int_to_string (nrefine p) 2 @ ''.vtk'')"
    and "w' = w\<lparr>fs := (fs w)(''solution-'' @ int_to_string (nrefine p) 2 @ ''.vtk'' \<mapsto>
                  write_vtk lib (dof_handler p)
                    [(''solution'', solution p),
                     (''error'', vector_minus (interpolate (dof_handler p) ExactSolution_value)
                                   (solution p))]
                    (fe_degree p))\<rparr>"
  using assms by (auto simp: output_results_def Let_def split: if_splits)

lemma vector_minus_nth:
  "i < length a \<Longrightarrow> i < length b \<Longrightarrow> vector_minus a b ! i = a ! i - b ! i"
  by (simp add: vector_minus_def)

text \<open>
  C9.  When \<^verbatim>\<open>output_results\<close> returns, \<^verbatim>\<open>system_rhs\<close> is the nodal error: at every
  degree of freedom the exact solution at its support point minus the computed
  solution.  Whatever \<^verbatim>\<open>system_rhs\<close> held before is gone (the outcome is the same for any
  previous content \<open>v\<close>), the file is written from the overwritten vector, and the
  solution vector and the system matrix are as before.
\<close>

theorem output_results_overwrites_system_rhs:
  assumes "output_results lib w p = Inr (p', w')"
  shows "system_rhs p' =
           vector_minus (interpolate (dof_handler p) ExactSolution_value) (solution p)
       \<and> (\<forall>i. i < n_dofs (dof_handler p) \<and> i < length (solution p) \<longrightarrow>
             system_rhs p' ! i =
               ExactSolution_value (support_points (dof_handler p) ! i) - solution p ! i)
       \<and> output_results lib w (p\<lparr>system_rhs := v\<rparr>) = Inr (p', w')
       \<and> solution p' = solution p
       \<and> system_matrix p' = system_matrix p
       \<and> fs w' (''solution-'' @ int_to_string (nrefine p) 2 @ ''.vtk'') =
           Some (write_vtk lib (dof_handler p)
                   [(''solution'', solution p), (''error'', system_rhs p')] (fe_degree p))"
proof -
  note r = output_results_Inr[OF assms]
  have rhs: "system_rhs p' =
      vector_minus (interpolate (dof_handler p) ExactSolution_value) (solution p)"
    using r(1) by simp
  have nodal: "\<forall>i. i < n_dofs (dof_handler p) \<and> i < length (solution p) \<longrightarrow>
             system_rhs p' ! i =
               ExactSolution_value (support_points (dof_handler p) ! i) - solution p ! i"
    unfolding rhs by (simp add: vector_minus_nth interpolate_def n_dofs_def)
  have again: "output_results lib w (p\<lparr>system_rhs := v\<rparr>) = Inr (p', w')"
    using assms by (simp add: output_results_def Let_def)
  have sol: "solution p' = solution p" and mat: "system_matrix p' = system_matrix p"
    using r(1) by simp_all
  have vtk: "fs w' (''solution-'' @ int_to_string (nrefine p) 2 @ ''.vtk'') =
           Some (write_vtk lib (dof_handler p)
                   [(''solution'', solution p), (''error'', system_rhs p')] (fe_degree p))"
    unfolding rhs using r(3) by simp
  show ?thesis using rhs nodal again sol mat vtk by blast
qed

theorem output_results_witness:
  "\<exists>p' w'. output_results example_dealii example_World example_problem = Inr (p', w')
     \<and> system_rhs example_problem = [5, 6, 7, 8]
     \<and> system_rhs p' = [0, 0, sqrt 3 / 2, ExactSolution_value (1, 1)]
     \<and> solution p' = [0, 0, 0, 0]
     \<and> fs w' ''solution-00.vtk'' = Some ''vtk''"
proof -
  obtain p' w' where r:
    "output_results example_dealii example_World example_problem = Inr (p', w')"
    by (simp add: output_results_def example_World_def Let_def)
  from output_results_overwrites_system_rhs[OF r, of "[]"]
  have "system_rhs p' = [0, 0, sqrt 3 / 2, ExactSolution_value (1, 1)]"
    "solution p' = [0, 0, 0, 0]" "fs w' ''solution-00.vtk'' = Some ''vtk''"
    by (simp_all add: example_problem_def example_dealii_def example_cell_def interpolate_def
          vector_minus_def ExactSolution_value_origin ExactSolution_value_1_0
          ExactSolution_value_0_1 int_to_string_def string_of_nat.simps)
  moreover have "system_rhs example_problem = [5, 6, 7, 8]"
    by (simp add: example_problem_def)
  ultimately show ?thesis using r by blast
qed

lemma run_Inr:
  assumes "run lib w p = Inr (r, p', w')"
  shows "r = (n_active_cells (triangulation p'), n_dofs (dof_handler p'),
              fst (compute_error lib p'), snd (compute_error lib p'))"
  using assms by (auto simp: run_def Let_def split: sum.splits prod.splits)

lemma example_run:
  "\<exists>p' w'. run example_dealii example_World (new_LaplaceProblem 1 0)
             = Inr ((1, 4, 2, Some 2), p', w')"
  by (simp add: run_def make_grid_and_dofs_def example_World_def example_dealii_def
        new_LaplaceProblem_def assemble_system_def solve_def SolverCG_solve_def
        SolverCG_loop.simps check_def cg_residual_def l2_norm_def output_results_def
        compute_error_def integrate_difference_L2_def integrate_difference_H1_def Let_def
        n_active_cells_def n_dofs_def example_cell_def ExactSolution_value_1_0
        ExactSolution_gradient_1_0 int_to_string_def print_def dot_def tensor_minus_def)

text \<open>
  C4.  A run that completes returns the number of active cells, the number of degrees
  of freedom and the two error norms of its final state.  The convergence table is no
  part of \<^verbatim>\<open>run\<close>: the loop of \<^verbatim>\<open>main\<close> appends the four values of the returned tuple
  to it.
\<close>

theorem refinement_step_adds_run_tuple:
  assumes "refinement_step lib degree n (t, w) = Inr (t', w')"
  shows "\<exists>ncell ndofs L2_error H1_error problem.
           run lib w (new_LaplaceProblem degree n)
             = Inr ((ncell, ndofs, L2_error, H1_error), problem, w')
         \<and> ncell = n_active_cells (triangulation problem)
         \<and> ndofs = n_dofs (dof_handler problem)
         \<and> (L2_error, H1_error) = compute_error lib problem
         \<and> table_values t' = table_values t @
              [(''cells'', UIntValue ncell), (''dofs'', UIntValue ndofs),
               (''L2'', DoubleValue (Some L2_error)), (''H1'', DoubleValue H1_error)]
         \<and> table_directives t' = table_directives t"
proof (cases "run lib w (new_LaplaceProblem degree n)")
  case (Inl e)
  then show ?thesis using assms by (simp add: refinement_step_def)
next
  case (Inr res)
  obtain ncell ndofs L2_error H1_error problem w1
    where res: "res = ((ncell, ndofs, L2_error, H1_error), problem, w1)"
    by (metis prod_cases3 surj_pair)
  have run_eq: "run lib w (new_LaplaceProblem degree n)
       = Inr ((ncell, ndofs, L2_error, H1_error), problem, w1)"
    using Inr res by simp
  have tuple: "(ncell, ndofs, L2_error, H1_error) =
      (n_active_cells (triangulation problem), n_dofs (dof_handler problem),
       fst (compute_error lib problem), snd (compute_error lib problem))"
    using run_Inr[OF run_eq] .
  have step: "t' = add_value ''H1'' (DoubleValue H1_error)
                    (add_value ''L2'' (DoubleValue (Some L2_error))
                      (add_value ''dofs'' (UIntValue ndofs)
                        (add_value ''cells'' (UIntValue ncell) t)))" and w: "w' = w1"
    using assms run_eq by (simp_all add: refinement_step_def)
  have "table_values t' = table_values t @
              [(''cells'', UIntValue ncell), (''dofs'', UIntValue ndofs),
               (''L2'', DoubleValue (Some L2_error)), (''H1'', DoubleValue H1_error)]"
    and "table_directives t' = table_directives t"
    unfolding step by (simp_all add: add_value_def)
  moreover have "(L2_error, H1_error) = compute_error lib problem" using tuple by simp
  ultimately show ?thesis using run_eq tuple w by auto
qed

theorem refinement_step_witness:
  "\<exists>t' w'. refinement_step example_dealii 1 0
              (\<lparr>table_values = [], table_directives = []\<rparr>, example_World) = Inr (t', w')
         \<and> table_values t' =
              [(''cells'', UIntValue 1), (''dofs'', UIntValue 4),
               (''L2'', DoubleValue (Some 2)), (''H1'', DoubleValue (Some 2))]"
proof -
  obtain p' w' where r: "run example_dealii example_World (new_LaplaceProblem 1 0)
             = Inr ((1, 4, 2, Some 2), p', w')"
    using example_run by blast
  let ?t' = "add_value ''H1'' (DoubleValue (Some 2))
                    (add_value ''L2'' (DoubleValue (Some 2))
                      (add_value ''dofs'' (UIntValue 4)
                        (add_value ''cells'' (UIntValue 1)
                           \<lparr>table_values = [], table_directives = []\<rparr>)))"
  have s: "refinement_step example_dealii 1 0
              (\<lparr>table_values = [], table_directives = []\<rparr>, example_World) = Inr (?t', w')"
    using r by (simp add: refinement_step_def)
  from refinement_step_adds_run_tuple[OF s] r
  have "table_values ?t' =
              [(''cells'', UIntValue 1), (''dofs'', UIntValue 4),
               (''L2'', DoubleValue (Some 2)), (''H1'', DoubleValue (Some 2))]"
    by auto
  with s show ?thesis by blast
qed

section \<open>Properties of \<^verbatim>\<open>main\<close> of the DG solver\<close>

lemma example_main_trace:
  "main_dg1d example_dg1d [''dg'', ''input.prm''] =
     (Inr 0,
      [ParseInput ''input.prm'',
       Stdout (print_parameters example_dg1d (declare_parameters example_dg1d [])),
       Construct example_constructed, Run example_constructed, Stdout []])"
  by (simp add: main_dg1d_def example_dg1d_def example_parsed_def example_constructed_def
        get_def Let_def)

text \<open>
  C6.  Started without a parameter file, \<^verbatim>\<open>main\<close> reports at once: it prints, among
  others, the list of the expected parameters, and does nothing else.  It does not try
  to read any file, constructs no problem and runs none.
\<close>

theorem main_without_input_file_only_reports:
  assumes "length argv < 2"
  shows "snd (main_dg1d env argv) \<noteq> []
       \<and> Stdout (print_parameters env (declare_parameters env [])) \<in> set (snd (main_dg1d env argv))
       \<and> list_all is_Stdout (snd (main_dg1d env argv))
       \<and> (\<forall>f. ParseInput f \<notin> set (snd (main_dg1d env argv)))
       \<and> (\<forall>problem. Construct problem \<notin> set (snd (main_dg1d env argv))
                    \<and> Run problem \<notin> set (snd (main_dg1d env argv)))"
  using assms by (simp add: main_dg1d_def Let_def)

theorem main_without_input_file_only_reports_witness:
  "length [''dg''] < 2
   \<and> snd (main_dg1d example_dg1d [''dg'']) =
       [Stdout (''Specify input parameter file'' @ endl),
        Stdout (''It should contain following parameters.'' @ endl @ endl),
        Stdout (print_parameters example_dg1d (declare_parameters example_dg1d []))]
   \<and> list_all is_Stdout (snd (main_dg1d example_dg1d [''dg'']))"
proof -
  have h: "length [''dg''] < 2" by simp
  have "snd (main_dg1d example_dg1d [''dg'']) =
       [Stdout (''Specify input parameter file'' @ endl),
        Stdout (''It should contain following parameters.'' @ endl @ endl),
        Stdout (print_parameters example_dg1d (declare_parameters example_dg1d []))]"
    by (simp add: main_dg1d_def Let_def)
  then show ?thesis
    using h main_without_input_file_only_reports[OF h, of example_dg1d] by simp
qed

text \<open>
  C8.  With fewer than two command-line arguments \<^verbatim>\<open>main\<close> prints the two lines and
  the list of the expected parameters and returns the exit code \<open>0\<close>; these three
  outputs are all that happens.
\<close>

theorem main_without_input_file_returns_0:
  assumes "length argv < 2"
  shows "main_dg1d env argv =
           (Inr 0,
            [Stdout (''Specify input parameter file'' @ endl),
             Stdout (''It should contain following parameters.'' @ endl @ endl),
             Stdout (print_parameters env (declare_parameters env []))])"
  using assms by (simp add: main_dg1d_def Let_def)

theorem main_without_input_file_returns_0_witness:
  "length [''dg''] < 2 \<and> fst (main_dg1d example_dg1d [''dg'']) = Inr 0"
proof -
  have h: "length [''dg''] < 2" by simp
  show ?thesis using h main_without_input_file_returns_0[OF h, of example_dg1d] by simp
qed

text \<open>
  C5, in the words of the specification, does not hold: here the parameter record read
  from the configuration holds the bounds \<open>[0, 2]\<close>, and the problem is constructed
  with the bounds \<open>[-1, 1]\<close> of the initial condition.
\<close>

theorem configured_bounds_counterexample:
  "parse_parameters example_dg1d (declare_parameters example_dg1d []) = Inr example_parsed
   \<and> Construct example_constructed \<in> set (snd (main_dg1d example_dg1d [''dg'', ''input.prm'']))
   \<and> xmin example_parsed = 0 \<and> xmin (param example_constructed) = - 1
   \<and> xmax example_parsed = 2 \<and> xmax (param example_constructed) = 1"
  by (simp add: example_main_trace)
     (simp add: example_dg1d_def example_parsed_def example_constructed_def)

text \<open>
  C5, as amended.  The bounds \<^verbatim>\<open>xmin\<close> and \<^verbatim>\<open>xmax\<close> a problem is constructed with are
  those of the initial condition of the test case that the configuration names; what
  \<^verbatim>\<open>parse_parameters\<close> left in the two members is overwritten.  Every other member of
  the parameter record is as \<^verbatim>\<open>parse_parameters\<close> read it from the configuration.
\<close>

theorem main_constructs_with_bounds_of_initial_condition:
  assumes "Construct problem \<in> set (snd (main_dg1d env argv))"
  shows "\<exists>ph1 parsed name test_case.
           2 \<le> length argv
         \<and> parse_input env (declare_parameters env []) (argv ! 1) = Inr ph1
         \<and> parse_parameters env ph1 = Inr parsed
         \<and> get ph1 ''test case'' = Inr name
         \<and> get_test_case env name = Inr test_case
         \<and> initial_condition problem = new_InitialCondition env test_case
         \<and> xmin (param problem) = ic_xmin (initial_condition problem)
         \<and> xmax (param problem) = ic_xmax (initial_condition problem)
         \<and> param problem = parsed\<lparr>xmin := ic_xmin (initial_condition problem),
                                    xmax := ic_xmax (initial_condition problem)\<rparr>"
  using assms
  by (auto simp: main_dg1d_def Let_def split: if_splits sum.splits)

theorem main_constructs_with_bounds_of_initial_condition_witness:
  "Construct example_constructed \<in> set (snd (main_dg1d example_dg1d [''dg'', ''input.prm'']))
   \<and> xmin (param example_constructed) = - 1 \<and> xmax (param example_constructed) = 1
   \<and> ic_xmin (initial_condition example_constructed) = - 1
   \<and> ic_xmax (initial_condition example_constructed) = 1"
proof -
  have h: "Construct example_constructed
             \<in> set (snd (main_dg1d example_dg1d [''dg'', ''input.prm'']))"
    by (simp add: example_main_trace)
  from main_constructs_with_bounds_of_initial_condition[OF h]
  have "xmin (param example_constructed) = ic_xmin (initial_condition example_constructed)"
    "xmax (param example_constructed) = ic_xmax (initial_condition example_constructed)"
    by blast+
  moreover have "ic_xmin (initial_condition example_constructed) = - 1"
    "ic_xmax (initial_condition example_constructed) = 1"
    by (simp_all add: example_constructed_def)
  ultimately show ?thesis using h by simp
qed

section \<open>Properties of the modelled DG core\<close>

lemma limit_coefficients_length:
  "length (limit_coefficients M h ul c ur) = length c"
  by (cases "(M, h, ul, c, ur)" rule: limit_coefficients.cases) (simp_all add: Let_def)

lemma limit_coefficients_take_1:
  "take (Suc 0) (limit_coefficients M h ul c ur) = take (Suc 0) c"
  by (cases "(M, h, ul, c, ur)" rule: limit_coefficients.cases) (simp_all add: Let_def)

lemma limit_coefficients_zeroth:
  "c \<noteq> [] \<Longrightarrow> limit_coefficients M h ul c ur ! 0 = c ! 0"
  by (cases "(M, h, ul, c, ur)" rule: limit_coefficients.cases) (simp_all add: Let_def)

lemma total_average_sum:
  "total_average v U = (\<Sum>i<length U. U ! i ! v ! 0)"
proof -
  have "total_average v U = sum_list (map (\<lambda>e. e ! v ! 0) U)"
    by (simp add: total_average_def)
  also have "\<dots> = (\<Sum>i = 0..<length (map (\<lambda>e. e ! v ! 0) U). map (\<lambda>e. e ! v ! 0) U ! i)"
    by (rule sum_list_sum_nth)
  also have "\<dots> = (\<Sum>i<length U. U ! i ! v ! 0)"
    by (simp add: atLeast0LessThan)
  finally show ?thesis .
qed

lemma cyclic_shift_sum:
  fixes g :: "nat \<Rightarrow> real"
  shows "(\<Sum>i<N. g (right_neighbour N i)) = (\<Sum>i<N. g i)"
proof (cases N)
  case 0
  then show ?thesis by simp
next
  case (Suc n)
  have "(\<Sum>i<Suc n. g (right_neighbour (Suc n) i))
      = (\<Sum>i<n. g (right_neighbour (Suc n) i)) + g (right_neighbour (Suc n) n)"
    by simp
  also have "(\<Sum>i<n. g (right_neighbour (Suc n) i)) = (\<Sum>i<n. g (Suc i))"
    by (rule sum.cong) (simp_all add: right_neighbour_def)
  also have "g (right_neighbour (Suc n) n) = g 0"
    by (simp add: right_neighbour_def)
  also have "(\<Sum>i<n. g (Suc i)) + g 0 = (\<Sum>i<Suc n. g i)"
    using sum.lessThan_Suc_shift[of g n] by simp
  finally show ?thesis using Suc by simp
qed

lemma sum_list_zero_factor:
  fixes w f d :: "nat \<Rightarrow> real"
  assumes "\<forall>q\<in>set qs. d q = 0"
  shows "(\<Sum>q\<leftarrow>qs. w q * f q * d q) = 0"
  using assms by (induction qs) auto

lemma volume_integral_constant_mode:
  assumes "constant_mode (basis S)"
  shows "volume_integral S e v 0 = 0"
proof -
  have "\<forall>q\<in>set [0..<length (weights (basis S))]. dphi_q (basis S) ! q ! 0 = 0"
    using assms by (simp add: constant_mode_def)
  then show ?thesis
    unfolding volume_integral_def
    by (rule sum_list_zero_factor[of "[0..<length (weights (basis S))]"
          "\<lambda>q. dphi_q (basis S) ! q ! 0" "\<lambda>q. weights (basis S) ! q"
          "\<lambda>q. physical_flux S (evaluate (phi_q (basis S) ! q) e) ! v"])
qed

lemma element_residual_zeroth:
  assumes "constant_mode (basis S)" "i < length U" "v < length (U ! i)" "U ! i ! v \<noteq> []"
  shows "element_residual S U i ! v ! 0 =
           - (interface_flux S U (right_neighbour (length U) i) ! v - interface_flux S U i ! v)
           / (dx S / 2 * mass (basis S) ! 0)"
proof -
  have c: "phi_left (basis S) ! 0 = 1" "phi_right (basis S) ! 0 = 1"
    using assms(1) by (simp_all add: constant_mode_def)
  have l: "0 < length (U ! i ! v)" using assms(4) by simp
  show ?thesis
    using assms(3) l
    by (simp add: element_residual_def residual_def c
          volume_integral_constant_mode[OF assms(1)])
qed

lemma stage_update_zeroth:
  assumes "constant_mode (basis S)" "i < length U" "v < length (U ! i)" "U ! i ! v \<noteq> []"
  shows "stage_update S a b dt U0 U ! i ! v ! 0 =
           a * U0 ! i ! v ! 0
           + b * (U ! i ! v ! 0
                  + dt * (- (interface_flux S U (right_neighbour (length U) i) ! v
                             - interface_flux S U i ! v)
                          / (dx S / 2 * mass (basis S) ! 0)))"
proof -
  have l: "0 < length (U ! i ! v)" using assms(4) by simp
  show ?thesis
    using assms(2,3) l
    by (simp add: stage_update_def combine_def element_residual_zeroth[OF assms])
qed

lemma well_formed_nth:
  assumes "well_formed nvar nbasis U" "i < length U" "v < nvar"
  shows "length (U ! i) = nvar" "length (U ! i ! v) = nbasis" "U ! i ! v \<noteq> []"
proof -
  have e: "U ! i \<in> set U" using assms(2) by simp
  then show len: "length (U ! i) = nvar" using assms(1) by (simp add: well_formed_def)
  then have "U ! i ! v \<in> set (U ! i)" using assms(3) by simp
  then show "length (U ! i ! v) = nbasis" using assms(1) e by (simp add: well_formed_def)
  moreover have "0 < nbasis" using assms(1) by (simp add: well_formed_def)
  ultimately show "U ! i ! v \<noteq> []" by auto
qed

lemma stage_algebra:
  fixes a b x y dt f fr k :: real
  shows "a * x + b * (y + dt * (- (fr - f) / k))
       = a * x + b * y + (b * dt / k) * f - (b * dt / k) * fr"
  by (simp add: algebra_simps diff_divide_distrib)

lemma stage_update_total_average:
  assumes "constant_mode (basis S)" "well_formed nvar nbasis U" "length U0 = length U"
    "v < nvar"
  shows "total_average v (stage_update S a b dt U0 U)
         = a * total_average v U0 + b * total_average v U"
proof -
  let ?N = "length U"
  let ?F = "\<lambda>i. interface_flux S U i ! v"
  let ?k = "dx S / 2 * mass (basis S) ! 0"
  have len: "length (stage_update S a b dt U0 U) = ?N"
    by (simp add: stage_update_def)
  have "total_average v (stage_update S a b dt U0 U)
      = (\<Sum>i<?N. stage_update S a b dt U0 U ! i ! v ! 0)"
    by (simp add: total_average_sum len)
  also have "\<dots> = (\<Sum>i<?N. a * U0 ! i ! v ! 0
           + b * (U ! i ! v ! 0 + dt * (- (?F (right_neighbour ?N i) - ?F i) / ?k)))"
  proof (rule sum.cong)
    fix i assume "i \<in> {..<?N}"
    then have i: "i < ?N" by simp
    note wf = well_formed_nth[OF assms(2) i assms(4)]
    show "stage_update S a b dt U0 U ! i ! v ! 0 = a * U0 ! i ! v ! 0
           + b * (U ! i ! v ! 0 + dt * (- (?F (right_neighbour ?N i) - ?F i) / ?k))"
      using stage_update_zeroth[OF assms(1) i _ wf(3)] wf(1) assms(4) by simp
  qed simp
  also have "\<dots> = (\<Sum>i<?N. a * U0 ! i ! v ! 0 + b * U ! i ! v ! 0
           + (b * dt / ?k) * ?F i - (b * dt / ?k) * ?F (right_neighbour ?N i))"
    by (simp only: stage_algebra)
  also have "\<dots> = (\<Sum>i<?N. a * U0 ! i ! v ! 0) + (\<Sum>i<?N. b * U ! i ! v ! 0)
        + (\<Sum>i<?N. (b * dt / ?k) * ?F i)
        - (\<Sum>i<?N. (b * dt / ?k) * ?F (right_neighbour ?N i))"
    by (simp only: sum.distrib sum_subtractf)
  also have "\<dots> = a * (\<Sum>i<?N. U0 ! i ! v ! 0) + b * (\<Sum>i<?N. U ! i ! v ! 0)
        + (b * dt / ?k) * (\<Sum>i<?N. ?F i)
        - (b * dt / ?k) * (\<Sum>i<?N. ?F (right_neighbour ?N i))"
    by (simp only: sum_distrib_left[symmetric])
  also have "(\<Sum>i<?N. ?F (right_neighbour ?N i)) = (\<Sum>i<?N. ?F i)"
    by (rule cyclic_shift_sum)
  finally show ?thesis
    by (simp add: total_average_sum assms(3))
qed

lemma minmod_damps: "\<bar>minmod a b c\<bar> \<le> \<bar>a\<bar>"
  by (auto simp: minmod_def)

lemma limit_coefficients_damps:
  "j < length c \<Longrightarrow> \<bar>limit_coefficients M h ul c ur ! j\<bar> \<le> \<bar>c ! j\<bar>"
proof (cases "(M, h, ul, c, ur)" rule: limit_coefficients.cases)
  case (3 M' h' ul' u0 u1 higher ur')
  assume j: "j < length c"
  show ?thesis
  proof (cases j)
    case 0
    then show ?thesis using 3 by (simp add: Let_def)
  next
    case (Suc k)
    show ?thesis
    proof (cases k)
      case 0
      then show ?thesis using 3 Suc by (simp add: Let_def minmod_damps)
    next
      case (Suc m)
      then have "m < length higher" using j 3 \<open>j = Suc k\<close> by simp
      then show ?thesis using 3 Suc \<open>j = Suc k\<close> by (simp add: Let_def)
    qed
  qed
qed simp_all

lemma limiter_length: "length (limiter S U) = length U"
  by (simp add: limiter_def Let_def)

lemma limiter_nth:
  assumes "i < length U" "v < length (U ! i)"
  shows "limiter S U ! i ! v =
           limit_coefficients (tvb_M S) (dx S)
             (U ! left_neighbour (length U) i ! v ! 0) (U ! i ! v)
             (U ! right_neighbour (length U) i ! v ! 0)"
  using assms by (simp add: limiter_def Let_def)

lemma limiter_element_length: "i < length U \<Longrightarrow> length (limiter S U ! i) = length (U ! i)"
  by (simp add: limiter_def Let_def)

text \<open>
  C2.  For every element and every variable of a state, the limiter keeps the number
  of coefficients and the zeroth coefficient, the cell average, exactly.  Only modes
  of order one and higher change, and none of them grows in absolute value.
\<close>

theorem limiter_keeps_cell_average:
  assumes "i < length U" "v < length (U ! i)"
  shows "length (limiter S U ! i ! v) = length (U ! i ! v)
       \<and> take 1 (limiter S U ! i ! v) = take 1 (U ! i ! v)
       \<and> (U ! i ! v \<noteq> [] \<longrightarrow> limiter S U ! i ! v ! 0 = U ! i ! v ! 0)
       \<and> (\<forall>j<length (U ! i ! v). \<bar>limiter S U ! i ! v ! j\<bar> \<le> \<bar>U ! i ! v ! j\<bar>)"
  unfolding limiter_nth[OF assms]
  by (simp add: limit_coefficients_length limit_coefficients_take_1 limit_coefficients_zeroth
        limit_coefficients_damps)

theorem limiter_keeps_cell_average_witness:
  "example_shock ! 1 ! 0 = [1, 2, 5]
   \<and> limiter example_scheme example_shock ! 1 ! 0 = [1, 0, 0]
   \<and> take 1 (limiter example_scheme example_shock ! 1 ! 0) = take 1 (example_shock ! 1 ! 0)"
proof -
  have i: "1 < length example_shock" and v: "0 < length (example_shock ! 1)"
    by (simp_all add: example_shock_def)
  have "limiter example_scheme example_shock ! 1 ! 0 = [1, 0, 0]"
    by (simp add: limiter_def example_shock_def example_scheme_def Let_def
          left_neighbour_def right_neighbour_def minmod_def upt_rec)
  moreover have "example_shock ! 1 ! 0 = [1, 2, 5]"
    by (simp add: example_shock_def)
  ultimately show ?thesis
    using limiter_keeps_cell_average[OF i v, of example_scheme] by simp
qed

lemma limiter_well_formed:
  assumes "well_formed nvar nbasis U"
  shows "well_formed nvar nbasis (limiter S U)"
proof -
  have pos: "0 < nbasis" using assms by (simp add: well_formed_def)
  have "length e = nvar \<and> (\<forall>c\<in>set e. length c = nbasis)" if "e \<in> set (limiter S U)" for e
  proof -
    from that obtain i where i: "i < length U" "e = limiter S U ! i"
      by (metis in_set_conv_nth limiter_length)
    have len: "length (U ! i) = nvar"
      using assms i(1) by (simp add: well_formed_def)
    have e_len: "length e = nvar"
      using i len by (simp add: limiter_element_length)
    moreover have "length c = nbasis" if "c \<in> set e" for c
    proof -
      from that obtain v where v: "v < nvar" "c = e ! v"
        using e_len by (metis in_set_conv_nth)
      have "length (U ! i ! v) = nbasis"
        using well_formed_nth(2)[OF assms i(1) v(1)] .
      then show ?thesis
        using v i len by (simp add: limiter_nth limit_coefficients_length)
    qed
    ultimately show ?thesis by blast
  qed
  then show ?thesis using pos by (simp add: well_formed_def)
qed

lemma limiter_total_average:
  assumes "well_formed nvar nbasis U" "v < nvar"
  shows "total_average v (limiter S U) = total_average v U"
proof -
  have "(\<Sum>i<length U. limiter S U ! i ! v ! 0) = (\<Sum>i<length U. U ! i ! v ! 0)"
  proof (rule sum.cong)
    fix i assume "i \<in> {..<length U}"
    then have i: "i < length U" by simp
    note wf = well_formed_nth[OF assms(1) i assms(2)]
    show "limiter S U ! i ! v ! 0 = U ! i ! v ! 0"
      using i wf assms(2) by (simp add: limiter_nth limit_coefficients_zeroth)
  qed simp
  then show ?thesis by (simp add: total_average_sum limiter_length)
qed

lemma stage_update_length: "length (stage_update S a b dt U0 U) = length U"
  by (simp add: stage_update_def)

lemma stage_update_well_formed:
  assumes "well_formed nvar nbasis U"
  shows "well_formed nvar nbasis (stage_update S a b dt U0 U)"
proof -
  have pos: "0 < nbasis" using assms by (simp add: well_formed_def)
  have "length e = nvar \<and> (\<forall>c\<in>set e. length c = nbasis)"
    if "e \<in> set (stage_update S a b dt U0 U)" for e
  proof -
    from that obtain i where i: "i < length U"
      "e = combine a b dt (U0 ! i) (U ! i) (element_residual S U i)"
      by (auto simp: stage_update_def)
    have len: "length (U ! i) = nvar"
      using assms i(1) by (simp add: well_formed_def)
    have "\<forall>v<nvar. length (U ! i ! v) = nbasis"
      using well_formed_nth(2)[OF assms i(1)] by blast
    then show ?thesis
      using len unfolding i(2) combine_def by auto
  qed
  then show ?thesis using pos by (simp add: well_formed_def)
qed

lemma rk_stage_total_average:
  assumes "constant_mode (basis S)" "well_formed nvar nbasis U" "length U0 = length U"
    "v < nvar" "a + b = 1" "total_average v U = total_average v U0"
  shows "total_average v (rk_stage S a b dt U0 U) = total_average v U0"
proof -
  have "total_average v (rk_stage S a b dt U0 U)
      = total_average v (stage_update S a b dt U0 U)"
    unfolding rk_stage_def
    using stage_update_well_formed[OF assms(2)] assms(4) by (rule limiter_total_average)
  also have "\<dots> = a * total_average v U0 + b * total_average v U"
    using assms(1-4) by (rule stage_update_total_average)
  also have "\<dots> = (a + b) * total_average v U0"
    by (simp add: assms(6) algebra_simps)
  finally show ?thesis by (simp add: assms(5))
qed

lemma rk_stage_well_formed:
  "well_formed nvar nbasis U \<Longrightarrow> well_formed nvar nbasis (rk_stage S a b dt U0 U)"
  unfolding rk_stage_def by (intro limiter_well_formed stage_update_well_formed)

lemma rk_stage_length: "length (rk_stage S a b dt U0 U) = length U"
  by (simp add: rk_stage_def limiter_length stage_update_length)

lemma rk_stages_conserve:
  assumes "constant_mode (basis S)" "v < nvar" "\<forall>(a, b)\<in>set cs. a + b = 1"
    "well_formed nvar nbasis U" "length U0 = length U"
    "total_average v U = total_average v U0"
  shows "\<forall>U'\<in>set (rk_stages S dt cs U0 U). total_average v U' = total_average v U0"
  using assms(3-6)
proof (induction cs arbitrary: U)
  case Nil
  then show ?case by simp
next
  case (Cons c cs)
  obtain a b where c: "c = (a, b)" by (cases c)
  have ab: "a + b = 1" using Cons.prems(1) c by simp
  let ?U' = "rk_stage S a b dt U0 U"
  have t: "total_average v ?U' = total_average v U0"
    using assms(1) Cons.prems(2,3) assms(2) ab Cons.prems(4) by (rule rk_stage_total_average)
  have "\<forall>U''\<in>set (rk_stages S dt cs U0 ?U'). total_average v U'' = total_average v U0"
  proof (rule Cons.IH)
    show "\<forall>(a, b)\<in>set cs. a + b = 1" using Cons.prems(1) by simp
    show "well_formed nvar nbasis ?U'" using Cons.prems(2) by (rule rk_stage_well_formed)
    show "length U0 = length ?U'" using Cons.prems(3) by (simp add: rk_stage_length)
    show "total_average v ?U' = total_average v U0" by (rule t)
  qed
  then show ?case using t by (simp add: c Let_def)
qed

text \<open>
  C1.  With periodic closure and the flux-form update, for every conserved variable,
  any number of elements and any number of basis functions, the sum over the mesh of the
  cell averages after every stage of a step is the sum at the start of the step; so it
  is the same before and after each stage.  In exact arithmetic the sums are equal.
\<close>

theorem runge_kutta_stages_conserve_total_average:
  assumes "constant_mode (basis S)" "well_formed nvar nbasis U0" "v < nvar"
    "\<forall>(a, b)\<in>set cs. a + b = 1"
  shows "\<forall>U'\<in>set (rk_stages S dt cs U0 U0). total_average v U' = total_average v U0"
  using assms(1,3,4,2) by (rule rk_stages_conserve) simp_all

lemma rk_stages_length: "length (rk_stages S dt cs U0 U) = length cs"
  by (induction cs arbitrary: U) (auto simp: Let_def)

lemma map_constant: "\<forall>x\<in>set xs. f x = c \<Longrightarrow> map f xs = replicate (length xs) c"
  by (induction xs) auto

theorem runge_kutta_stages_witness:
  "total_average 0 example_state = 6
   \<and> map (total_average 0)
         (rk_stages example_scheme (1 / 10) ssp_rk3 example_state example_state) = [6, 6, 6]"
proof -
  have c: "constant_mode (basis example_scheme)"
    by (simp add: constant_mode_def example_scheme_def example_basis_def less_Suc_eq
          numeral_2_eq_2)
  have w: "well_formed 1 2 example_state"
    by (simp add: well_formed_def example_state_def)
  have s: "\<forall>(a, b)\<in>set ssp_rk3. a + b = (1::real)"
    by (simp add: ssp_rk3_def)
  have t: "total_average 0 example_state = 6"
    by (simp add: total_average_def example_state_def)
  have l: "length (rk_stages example_scheme (1 / 10) ssp_rk3 example_state example_state) = 3"
    unfolding rk_stages_length by (simp add: ssp_rk3_def)
  have "\<forall>U'\<in>set (rk_stages example_scheme (1 / 10) ssp_rk3 example_state example_state).
          total_average 0 U' = 6"
    using runge_kutta_stages_conserve_total_average[OF c w _ s, of 0 "1 / 10"] t by simp
  then have "map (total_average 0)
         (rk_stages example_scheme (1 / 10) ssp_rk3 example_state example_state)
       = replicate 3 6"
    using l map_constant[of "rk_stages example_scheme (1 / 10) ssp_rk3 example_state example_state"
        "total_average 0" 6] by simp
  moreover have "replicate 3 (6::real) = [6, 6, 6]"
    by (simp add: numeral_3_eq_3)
  ultimately show ?thesis using t by simp
qed

end
